theory Spec2Isabelle
  imports Main "HOL-Library.Multiset"
begin

section \<open>Python values shared by the components\<close>

text \<open>
  Metadata dictionaries map string keys to simple values (\<open>Dict[str, Any]\<close>; the
  file loader stores the source path as a string and page numbers as integers).
\<close>

datatype mval = MNone | MBool bool | MInt int | MStr string

type_synonym metadata = "string \<rightharpoonup> mval"

text \<open>
  Exceptions as values. \<open>SQLAlchemyError\<close> is the only class the vector store
  catches; the orchestrators catch every \<open>Exception\<close>. The string is \<open>str(e)\<close>.
\<close>

datatype exn =
    SQLAlchemyError string
  | ValueError string
  | KeyError string
  | AttributeError string
  | TypeError string
  | RuntimeError string

fun exn_str :: "exn \<Rightarrow> string" where
  "exn_str (SQLAlchemyError m) = m"
| "exn_str (ValueError m) = m"
| "exn_str (KeyError m) = m"
| "exn_str (AttributeError m) = m"
| "exn_str (TypeError m) = m"
| "exn_str (RuntimeError m) = m"

text \<open>\<open>str(n)\<close> for a Python integer: decimal digits, a leading minus sign.\<close>

fun str_nat :: "nat \<Rightarrow> string" where
  "str_nat n = (if n < 10 then [''0123456789'' ! n]
                else str_nat (n div 10) @ [''0123456789'' ! (n mod 10)])"

definition str_int :: "int \<Rightarrow> string" where
  "str_int i = (if i < 0 then CHR ''-'' # str_nat (nat (- i)) else str_nat (nat i))"

text \<open>\<open>str(value)\<close>, as an f-string or an explicit \<open>str\<close> call renders a value.\<close>

fun py_str :: "mval \<Rightarrow> string" where
  "py_str MNone = ''None''"
| "py_str (MBool b) = (if b then ''True'' else ''False'')"
| "py_str (MInt i) = str_int i"
| "py_str (MStr s) = s"

section \<open>Documents and chunks (src/core/models/document.py)\<close>

text \<open>
  The metadata field is a type parameter: during chunking it is a reference to a
  dictionary object, afterwards the dictionary's contents. The components of an
  embedding are floats; only their number and an abstract distance are used, so the
  component type is a parameter too.
\<close>

record 'm Document =
  doc_id :: string
  doc_content :: string
  doc_metadata :: 'm

record ('m, 'f) DocumentChunk =
  chunk_id :: string
  document_id :: string
  content :: string
  metadata :: 'm
  embedding :: "'f list option"

section \<open>The vector store (src/infrastructure/vector_stores/postgres_vector_store.py)\<close>

text \<open>
  One row of table \<open>document_chunks\<close> (class \<open>ChunkModel\<close>). Rows are created by
  \<open>add\<close> only, which always supplies the embedding. The table is the list of
  committed rows in insertion order.
\<close>

record 'f ChunkModel =
  cm_id :: string
  cm_document_id :: string
  cm_content :: string
  chunk_metadata :: metadata
  cm_embedding :: "'f list"

type_synonym 'f table = "'f ChunkModel list"

text \<open>
  The validation loop of \<open>add\<close>, with its two accumulators \<open>chunk_models\<close> and
  \<open>added_ids\<close>. A chunk without embedding, or with an embedding whose length is not
  the store's dimension, is skipped (\<open>continue\<close>).
\<close>

definition to_chunk_model :: "(metadata, 'f) DocumentChunk \<Rightarrow> 'f list \<Rightarrow> 'f ChunkModel" where
  "to_chunk_model chunk e =
     \<lparr> cm_id = chunk_id chunk,
       cm_document_id = document_id chunk,
       cm_content = content chunk,
       chunk_metadata = metadata chunk,
       cm_embedding = e \<rparr>"

fun add_loop :: "int \<Rightarrow> (metadata, 'f) DocumentChunk list \<Rightarrow> 'f ChunkModel list \<Rightarrow> string list
                 \<Rightarrow> 'f ChunkModel list \<times> string list" where
  "add_loop dim [] chunk_models added_ids = (chunk_models, added_ids)"
| "add_loop dim (chunk # chunks) chunk_models added_ids =
     (case embedding chunk of
        None \<Rightarrow> add_loop dim chunks chunk_models added_ids
      | Some e \<Rightarrow>
          if int (length e) \<noteq> dim then add_loop dim chunks chunk_models added_ids
          else add_loop dim chunks (chunk_models @ [to_chunk_model chunk e])
                 (added_ids @ [chunk_id chunk]))"

text \<open>
  The session and the database behind it. Sessions are made with
  \<open>autocommit=False\<close>, so the statements of a session run in one transaction.
  \<open>add_all\<close> makes rows pending.
  \<open>commit\<close> sends one \<open>INSERT\<close> for each pending row and then \<open>COMMIT\<close>; the rows
  inserted so far belong to the open transaction and reach the table only when
  \<open>COMMIT\<close> succeeds. \<open>rollback\<close> and \<open>close\<close> end the transaction and drop what it
  inserted. What the database and its driver do with a statement is not in the program:
  \<open>db_fault j = Some e\<close> says that statement \<open>j\<close> of the transaction (the \<open>INSERT\<close>
  of pending row \<open>j\<close>, or \<open>COMMIT\<close> after the last row) raises \<open>e\<close>, of whatever
  class. The primary key on \<open>id\<close> is declared in the program; a row that repeats an
  id raises an \<open>IntegrityError\<close>, which is an \<open>SQLAlchemyError\<close>.
\<close>

record 'f Session =
  committed :: "'f table"
  inserted :: "'f ChunkModel list"
  new_objects :: "'f ChunkModel list"

definition SessionLocal :: "'f table \<Rightarrow> 'f Session" where
  "SessionLocal tbl = \<lparr> committed = tbl, inserted = [], new_objects = [] \<rparr>"

definition session_add_all :: "'f Session \<Rightarrow> 'f ChunkModel list \<Rightarrow> 'f Session" where
  "session_add_all session rows = session\<lparr> new_objects := new_objects session @ rows \<rparr>"

fun flush_rows :: "(nat \<Rightarrow> exn option) \<Rightarrow> nat \<Rightarrow> 'f ChunkModel list \<Rightarrow> 'f Session
                   \<Rightarrow> exn option \<times> 'f Session" where
  "flush_rows db_fault j [] session = (None, session)"
| "flush_rows db_fault j (row # rows) session =
     (case db_fault j of
        Some e \<Rightarrow> (Some e, session)
      | None \<Rightarrow>
          if cm_id row \<in> set (map cm_id (committed session @ inserted session))
          then (Some (SQLAlchemyError ''IntegrityError''), session)
          else flush_rows db_fault (Suc j) rows (session\<lparr> inserted := inserted session @ [row] \<rparr>))"

definition session_commit :: "(nat \<Rightarrow> exn option) \<Rightarrow> 'f Session \<Rightarrow> exn option \<times> 'f Session" where
  "session_commit db_fault session =
     (case flush_rows db_fault 0 (new_objects session) session of
        (Some e, flushed) \<Rightarrow> (Some e, flushed)
      | (None, flushed) \<Rightarrow>
          (case db_fault (length (new_objects session)) of
             Some e \<Rightarrow> (Some e, flushed)
           | None \<Rightarrow> (None, flushed\<lparr> committed := committed flushed @ inserted flushed,
                                      inserted := [], new_objects := [] \<rparr>)))"

definition session_rollback :: "'f Session \<Rightarrow> 'f Session" where
  "session_rollback session = session\<lparr> inserted := [], new_objects := [] \<rparr>"

definition session_close :: "'f Session \<Rightarrow> 'f Session" where
  "session_close session = session\<lparr> inserted := [], new_objects := [] \<rparr>"

text \<open>
  \<open>PostgresVectorStore.add\<close>: what the call returns or raises, and the state of
  the database connection afterwards (the two early returns open no session). Only an
  \<open>SQLAlchemyError\<close> is caught (rollback, \<open>return []\<close>); any other exception of the
  commit leaves through \<open>finally: session.close()\<close> to the caller.
\<close>

definition add_session :: "int \<Rightarrow> (nat \<Rightarrow> exn option) \<Rightarrow> 'f table \<Rightarrow> (metadata, 'f) DocumentChunk list
                   \<Rightarrow> (exn + string list) \<times> 'f Session" where
  "add_session dim db_fault tbl chunks =
     (if chunks = [] then (Inr [], SessionLocal tbl)
      else
        (let (chunk_models, added_ids) = add_loop dim chunks [] [] in
         if chunk_models = [] then (Inr [], SessionLocal tbl)
         else
           (let session = session_add_all (SessionLocal tbl) chunk_models in
            (case session_commit db_fault session of
               (None, session') \<Rightarrow> (Inr added_ids, session_close session')
             | (Some e, session') \<Rightarrow>
                 (case e of
                    SQLAlchemyError msg \<Rightarrow> (Inr [], session_close (session_rollback session'))
                  | _ \<Rightarrow> (Inl e, session_close session'))))))"

text \<open>The same call, with the table as the other sessions see it afterwards.\<close>

definition add :: "int \<Rightarrow> (nat \<Rightarrow> exn option) \<Rightarrow> 'f table \<Rightarrow> (metadata, 'f) DocumentChunk list
                   \<Rightarrow> (exn + string list) \<times> 'f table" where
  "add dim db_fault tbl chunks =
     (let (result, session) = add_session dim db_fault tbl chunks in (result, committed session))"

text \<open>
  The statement built by \<open>query\<close>:
  \<open>select(ChunkModel).where(chunk_metadata[key].astext == str(value))...\<close>, one
  condition for each filter, then \<open>.order_by(embedding.cosine_distance(q)).limit(top_k)\<close>.
\<close>

record 'f select_stmt =
  stmt_where :: "(string \<times> string) list"
  stmt_order_by :: "'f list"
  stmt_limit :: int

definition build_stmt :: "(string \<times> mval) list \<Rightarrow> 'f list \<Rightarrow> int \<Rightarrow> 'f select_stmt" where
  "build_stmt filters query_embedding top_k =
     \<lparr> stmt_where = map (\<lambda>(key, v). (key, py_str v)) filters,
       stmt_order_by = query_embedding,
       stmt_limit = top_k \<rparr>"

definition to_document_chunk :: "'f ChunkModel \<Rightarrow> (metadata, 'f) DocumentChunk" where
  "to_document_chunk result =
     \<lparr> chunk_id = cm_id result,
       document_id = cm_document_id result,
       content = cm_content result,
       metadata = chunk_metadata result,
       embedding = Some (cm_embedding result) \<rparr>"

text \<open>
  \<open>PostgresVectorStore.query\<close>. The program ranks nothing itself: the statement goes
  to the database, and \<open>execute\<close> stands for what the database answers, the rows in
  its order or an exception. An empty or mis-dimensioned query embedding and an
  \<open>SQLAlchemyError\<close> all end in \<open>return []\<close>; any other exception leaves to the
  caller.
\<close>

definition query ::
  "int \<Rightarrow> ('f select_stmt \<Rightarrow> exn + 'f ChunkModel list)
     \<Rightarrow> 'f list \<Rightarrow> int \<Rightarrow> (string \<times> mval) list \<Rightarrow> exn + (metadata, 'f) DocumentChunk list" where
  "query dim execute query_embedding top_k filters =
     (if query_embedding = [] then Inr []
      else if int (length query_embedding) \<noteq> dim then Inr []
      else
        (case execute (build_stmt filters query_embedding top_k) of
           Inr results \<Rightarrow> Inr (map to_document_chunk results)
         | Inl e \<Rightarrow>
             (case e of
                SQLAlchemyError msg \<Rightarrow> Inr []
              | _ \<Rightarrow> Inl e)))"

text \<open>
  Behaviours a database can show for the statement. The text comparison of the JSONB
  operator yields SQL \<open>NULL\<close> for a missing key and for JSON \<open>null\<close>, which selects
  no row. \<open>exact_scan\<close> reads the whole table, sorts the matching rows by distance
  (keeping rows of equal distance in insertion order) and cuts at the limit; it rejects
  a negative limit. \<open>hnsw_scan\<close> is a scan of the approximate index declared on the
  embedding column: it yields at most \<open>ef_search\<close> candidates, whatever the limit.
  \<open>reversed_scan\<close> differs from the exact scan only in the order of rows of equal
  distance, which \<open>ORDER BY\<close> leaves open. \<open>database_down\<close> raises for every
  statement.
\<close>

fun astext :: "mval \<Rightarrow> string option" where
  "astext MNone = None"
| "astext (MBool b) = Some (if b then ''true'' else ''false'')"
| "astext (MInt i) = Some (str_int i)"
| "astext (MStr s) = Some s"

definition matches_where :: "(string \<times> string) list \<Rightarrow> 'f ChunkModel \<Rightarrow> bool" where
  "matches_where conditions row =
     list_all (\<lambda>(key, text). case chunk_metadata row key of
                              None \<Rightarrow> False
                            | Some mv \<Rightarrow> astext mv = Some text) conditions"

definition ranked_rows :: "('f list \<Rightarrow> 'f list \<Rightarrow> 'd::linorder) \<Rightarrow> 'f table \<Rightarrow> 'f select_stmt
                           \<Rightarrow> 'f ChunkModel list" where
  "ranked_rows cosine_distance tbl stmt =
     sort_key (\<lambda>row. cosine_distance (cm_embedding row) (stmt_order_by stmt))
       (filter (matches_where (stmt_where stmt)) tbl)"

definition exact_scan :: "('f list \<Rightarrow> 'f list \<Rightarrow> 'd::linorder) \<Rightarrow> 'f table \<Rightarrow> 'f select_stmt
                           \<Rightarrow> exn + 'f ChunkModel list" where
  "exact_scan cosine_distance tbl stmt =
     (if stmt_limit stmt < 0 then Inl (SQLAlchemyError ''LIMIT must not be negative'')
      else Inr (take (nat (stmt_limit stmt)) (ranked_rows cosine_distance tbl stmt)))"




text \<open>Specification vocabulary for the store: the chunks that pass validation, and their rows.\<close>

definition passes_validation :: "int \<Rightarrow> ('m, 'f) DocumentChunk \<Rightarrow> bool" where
  "passes_validation dim chunk =
     (case embedding chunk of None \<Rightarrow> False | Some e \<Rightarrow> int (length e) = dim)"

definition valid_rows :: "int \<Rightarrow> (metadata, 'f) DocumentChunk list \<Rightarrow> 'f ChunkModel list" where
  "valid_rows dim chunks =
     map (\<lambda>c. to_chunk_model c (the (embedding c))) (filter (passes_validation dim) chunks)"

text \<open>How the commit of a session that holds the given rows as pending ends.\<close>

definition commit_outcome :: "(nat \<Rightarrow> exn option) \<Rightarrow> 'f table \<Rightarrow> 'f ChunkModel list \<Rightarrow> exn option" where
  "commit_outcome db_fault tbl rows =
     fst (session_commit db_fault (session_add_all (SessionLocal tbl) rows))"

section \<open>The ingestion service (src/services/ingestion_service.py)\<close>

subsection \<open>Dictionary objects\<close>

text \<open>
  Step 2 of \<open>run_ingestion\<close> copies the parent's metadata dictionary and then
  assigns into the copy. Dictionaries are objects, so this step is modelled over a store
  of dictionary objects: a document or chunk holds a reference. The state also counts
  the identifiers drawn from \<open>uuid.uuid4\<close> (the default of \<open>DocumentChunk.id\<close>).
\<close>

type_synonym ref = nat

record pystate =
  dicts :: "ref \<rightharpoonup> metadata"
  next_ref :: ref
  uuid_count :: nat

definition dict_copy :: "pystate \<Rightarrow> ref \<Rightarrow> ref \<times> pystate" where
  "dict_copy s r =
     (next_ref s, s\<lparr> dicts := (dicts s)(next_ref s := dicts s r), next_ref := Suc (next_ref s) \<rparr>)"

definition dict_setitem :: "pystate \<Rightarrow> ref \<Rightarrow> string \<Rightarrow> mval \<Rightarrow> pystate" where
  "dict_setitem s r k v =
     s\<lparr> dicts := (dicts s)(r := map_option (\<lambda>d. d(k \<mapsto> v)) (dicts s r)) \<rparr>"

definition new_uuid :: "(nat \<Rightarrow> string) \<Rightarrow> pystate \<Rightarrow> string \<times> pystate" where
  "new_uuid uuid4 s = (uuid4 (uuid_count s), s\<lparr> uuid_count := Suc (uuid_count s) \<rparr>)"

subsection \<open>Chunking\<close>

text \<open>
  The inner loop \<open>for i, text_chunk in enumerate(texts)\<close> for one document, and the
  outer loop over the documents. The splitter is a collaborator and may raise.
\<close>

fun chunk_texts :: "(nat \<Rightarrow> string) \<Rightarrow> ref Document \<Rightarrow> (nat \<times> string) list \<Rightarrow> pystate
                    \<Rightarrow> (ref, 'f) DocumentChunk list \<times> pystate" where
  "chunk_texts uuid4 doc [] s = ([], s)"
| "chunk_texts uuid4 doc ((i, text_chunk) # rest) s =
     (let (chunk_metadata, s1) = dict_copy s (doc_metadata doc);
          s2 = dict_setitem s1 chunk_metadata ''chunk_index'' (MInt (int i));
          (new_id, s3) = new_uuid uuid4 s2;
          chunk = \<lparr> chunk_id = new_id, document_id = doc_id doc, content = text_chunk,
                    metadata = chunk_metadata, embedding = None \<rparr>;
          (chunks, s4) = chunk_texts uuid4 doc rest s3
      in (chunk # chunks, s4))"

definition split_document :: "(nat \<Rightarrow> string) \<Rightarrow> ref Document \<Rightarrow> string list \<Rightarrow> pystate
                    \<Rightarrow> (ref, 'f) DocumentChunk list \<times> pystate" where
  "split_document uuid4 doc texts s = chunk_texts uuid4 doc (List.enumerate 0 texts) s"

fun chunk_documents :: "(string \<Rightarrow> exn + string list) \<Rightarrow> (nat \<Rightarrow> string) \<Rightarrow> ref Document list
                        \<Rightarrow> pystate \<Rightarrow> exn + (ref, 'f) DocumentChunk list \<times> pystate" where
  "chunk_documents split_text uuid4 [] s = Inr ([], s)"
| "chunk_documents split_text uuid4 (doc # documents) s =
     (case split_text (doc_content doc) of
        Inl e \<Rightarrow> Inl e
      | Inr texts \<Rightarrow>
          (let (chunks, s1) = split_document uuid4 doc texts s in
           (case chunk_documents split_text uuid4 documents s1 of
              Inl e \<Rightarrow> Inl e
            | Inr (others, s2) \<Rightarrow> Inr (chunks @ others, s2))))"

text \<open>
  After step 2 no dictionary is assigned to any more; the later steps read a chunk's
  metadata only, so they work on the dictionaries' contents.
\<close>

definition resolve :: "pystate \<Rightarrow> (ref, 'f) DocumentChunk \<Rightarrow> (metadata, 'f) DocumentChunk" where
  "resolve s chunk =
     \<lparr> chunk_id = chunk_id chunk, document_id = document_id chunk, content = content chunk,
       metadata = (case dicts s (metadata chunk) of None \<Rightarrow> Map.empty | Some d \<Rightarrow> d),
       embedding = embedding chunk \<rparr>"

subsection \<open>Embedding and storing in batches\<close>

text \<open>
  What the batch loop logs for one batch: the batch was skipped (\<open>continue\<close>), the
  store returned ids, or the store returned no id.
\<close>

datatype batch_event = Skipped | Added nat | AddFailed

text \<open>
  The embedding model and the vector store are collaborators behind their interfaces;
  each is given by what its call for batch number \<open>k\<close> returns or raises. The loop
  \<open>for i in range(0, len(all_chunks), batch_size)\<close> runs for a positive batch size;
  an exception leaves the loop with the total and the log reached so far.
\<close>

definition attach_embeddings :: "('m, 'f) DocumentChunk list \<Rightarrow> 'f list list \<Rightarrow> ('m, 'f) DocumentChunk list" where
  "attach_embeddings batch_chunks embeddings =
     map (\<lambda>(chunk, e). chunk\<lparr> embedding := Some e \<rparr>) (zip batch_chunks embeddings)"

function process_batches ::
  "(nat \<Rightarrow> string list \<Rightarrow> exn + 'f list list)
     \<Rightarrow> (nat \<Rightarrow> ('m, 'f) DocumentChunk list \<Rightarrow> exn + string list)
     \<Rightarrow> nat \<Rightarrow> ('m, 'f) DocumentChunk list \<Rightarrow> nat \<Rightarrow> nat \<Rightarrow> batch_event list
     \<Rightarrow> exn option \<times> nat \<times> batch_event list" where
  "process_batches embed_documents store_add batch_size all_chunks i total_chunks_added log =
     (if batch_size = 0 \<or> length all_chunks \<le> i then (None, total_chunks_added, log)
      else
        let batch_chunks = take batch_size (drop i all_chunks);
            texts_to_embed = map content batch_chunks
        in (case embed_documents (i div batch_size) texts_to_embed of
              Inl e \<Rightarrow> (Some e, total_chunks_added, log)
            | Inr embeddings \<Rightarrow>
                (if embeddings = [] \<or> length embeddings \<noteq> length batch_chunks
                 then process_batches embed_documents store_add batch_size all_chunks
                        (i + batch_size) total_chunks_added (log @ [Skipped])
                 else
                   (case store_add (i div batch_size) (attach_embeddings batch_chunks embeddings) of
                      Inl e \<Rightarrow> (Some e, total_chunks_added, log)
                    | Inr added_ids \<Rightarrow>
                        (if added_ids \<noteq> []
                         then process_batches embed_documents store_add batch_size all_chunks
                                (i + batch_size) (total_chunks_added + length added_ids)
                                (log @ [Added (length added_ids)])
                         else process_batches embed_documents store_add batch_size all_chunks
                                (i + batch_size) total_chunks_added (log @ [AddFailed]))))))"
  by pat_completeness auto
termination
  by (relation "measure (\<lambda>(embed_documents, store_add, batch_size, all_chunks, i, added, log).
                   length all_chunks - i)") auto

declare process_batches.simps [simp del]

text \<open>
  \<open>IngestionService.run_ingestion\<close>. Every exception is caught and turned into
  \<open>False\<close>. \<open>range\<close> raises \<open>ValueError\<close> for step 0 and is empty for a negative
  step.
\<close>

definition run_ingestion ::
  "('src \<Rightarrow> exn + ref Document list) \<Rightarrow> (string \<Rightarrow> exn + string list)
     \<Rightarrow> (nat \<Rightarrow> string list \<Rightarrow> exn + 'f list list)
     \<Rightarrow> (nat \<Rightarrow> (metadata, 'f) DocumentChunk list \<Rightarrow> exn + string list)
     \<Rightarrow> (nat \<Rightarrow> string) \<Rightarrow> int \<Rightarrow> pystate \<Rightarrow> 'src \<Rightarrow> bool" where
  "run_ingestion load split_text embed_documents store_add uuid4 batch_size s source =
     (case load source of
        Inl e \<Rightarrow> False
      | Inr documents \<Rightarrow>
          (if documents = [] then False
           else
             (case chunk_documents split_text uuid4 documents s of
                Inl e \<Rightarrow> False
              | Inr (chunk_objects, s') \<Rightarrow>
                  (let all_chunks = map (resolve s') chunk_objects in
                   if all_chunks = [] then False
                   else if batch_size = 0 then False
                   else if batch_size < 0 then False
                   else
                     (case process_batches embed_documents store_add (nat batch_size) all_chunks 0 0 [] of
                        (Some e, total_chunks_added, log) \<Rightarrow> False
                      | (None, total_chunks_added, log) \<Rightarrow> total_chunks_added > 0)))))"

section \<open>The ingestion entry point (scripts/run_ingestion.py)\<close>

text \<open>
  \<open>main\<close>, from the initialisation of the components to the exit code. A failed
  run makes \<open>main\<close> load the source again, to tell an empty source from a failure.
\<close>

definition main ::
  "exn option \<Rightarrow> ('src \<Rightarrow> exn + ref Document list) \<Rightarrow> (string \<Rightarrow> exn + string list)
     \<Rightarrow> (nat \<Rightarrow> string list \<Rightarrow> exn + 'f list list)
     \<Rightarrow> (nat \<Rightarrow> (metadata, 'f) DocumentChunk list \<Rightarrow> exn + string list)
     \<Rightarrow> (nat \<Rightarrow> string) \<Rightarrow> int \<Rightarrow> pystate \<Rightarrow> 'src \<Rightarrow> int" where
  "main init_fault load split_text embed_documents store_add uuid4 batch_size s source_path =
     (case init_fault of
        Some e \<Rightarrow> 1
      | None \<Rightarrow>
          (let success = run_ingestion load split_text embed_documents store_add uuid4 batch_size s source_path
           in if success then 0
              else
                (case load source_path of
                   Inl e \<Rightarrow> 1
                 | Inr docs_check \<Rightarrow> if docs_check = [] then 0 else 1)))"

section \<open>The generation provider (src/infrastructure/llm_providers/ollama_provider.py)\<close>

text \<open>
  \<open>str.strip()\<close>: whitespace is removed at both ends. Characters are code points
  below 256; Python's whitespace among them is 9 to 13, 28 to 32, 133 and 160.
\<close>

definition is_space :: "char \<Rightarrow> bool" where
  "is_space c \<longleftrightarrow>
     (let n = (of_char c :: nat)
      in (9 \<le> n \<and> n \<le> 13) \<or> (28 \<le> n \<and> n \<le> 32) \<or> n = 133 \<or> n = 160)"

definition strip :: "string \<Rightarrow> string" where
  "strip t = rev (dropWhile is_space (rev (dropWhile is_space t)))"

text \<open>
  A response of the Ollama client is read with \<open>.get\<close>, like a dictionary of JSON
  values. A message of the chat endpoint is a dictionary with the keys \<open>role\<close> and
  \<open>content\<close>.
\<close>

datatype jval = JNone | JInt int | JStr string | JDict "(string \<times> jval) list"

type_synonym message = "(string \<times> string) list"

text \<open>
  \<open>response.get('message', {}).get('content', '')\<close>: the second \<open>get\<close> needs a
  dictionary. The text is then sliced and stripped, which needs a string.
\<close>

definition get_content :: "jval \<Rightarrow> exn + jval" where
  "get_content m =
     (case m of
        JDict d \<Rightarrow> Inr (case map_of d ''content'' of None \<Rightarrow> JStr [] | Some v \<Rightarrow> v)
      | _ \<Rightarrow> Inl (AttributeError ''object has no attribute 'get' ''))"

definition strip_text :: "jval \<Rightarrow> exn + string" where
  "strip_text generated_text =
     (case generated_text of
        JStr t \<Rightarrow> Inr (strip t)
      | _ \<Rightarrow> Inl (TypeError ''object is not subscriptable''))"

text \<open>
  The body of the \<open>try\<close> block of \<open>generate\<close>. The client's two endpoints are
  collaborators and may raise.
\<close>

definition generate_body ::
  "(string \<Rightarrow> message list \<Rightarrow> (string \<rightharpoonup> jval) \<Rightarrow> exn + (string \<rightharpoonup> jval))
     \<Rightarrow> (string \<Rightarrow> string \<Rightarrow> (string \<rightharpoonup> jval) \<Rightarrow> exn + (string \<rightharpoonup> jval))
     \<Rightarrow> string \<Rightarrow> (string \<rightharpoonup> jval) \<Rightarrow> message list option \<Rightarrow> string \<Rightarrow> exn + string" where
  "generate_body client_chat client_generate target_model request_options history prompt =
     (if history \<noteq> None \<and> history \<noteq> Some []
      then
        (let messages = the history @ [[(''role'', ''user''), (''content'', prompt)]] in
         (case client_chat target_model messages request_options of
            Inl e \<Rightarrow> Inl e
          | Inr response \<Rightarrow>
              (case get_content (case response ''message'' of None \<Rightarrow> JDict [] | Some m \<Rightarrow> m) of
                 Inl e \<Rightarrow> Inl e
               | Inr generated_text \<Rightarrow> strip_text generated_text)))
      else
        (case client_generate target_model prompt request_options of
           Inl e \<Rightarrow> Inl e
         | Inr response \<Rightarrow>
             strip_text (case response ''response'' of None \<Rightarrow> JStr [] | Some t \<Rightarrow> t)))"

text \<open>
  \<open>model or self.default_model\<close> (the empty string counts as no model) and
  \<open>{**self.default_options, **(options or {})}\<close>.
\<close>

definition target_model_of :: "string \<Rightarrow> string option \<Rightarrow> string" where
  "target_model_of default_model model =
     (case model of None \<Rightarrow> default_model | Some m \<Rightarrow> if m = [] then default_model else m)"

definition request_options_of :: "(string \<rightharpoonup> jval) \<Rightarrow> (string \<rightharpoonup> jval) option \<Rightarrow> (string \<rightharpoonup> jval)" where
  "request_options_of default_options options =
     default_options ++ (case options of None \<Rightarrow> Map.empty | Some opts \<Rightarrow> opts)"

text \<open>
  \<open>OllamaProvider.generate\<close>: the model and the options are chosen, the body runs,
  and \<open>except Exception\<close> turns an exception into the bracketed message.
\<close>

definition generate ::
  "(string \<Rightarrow> message list \<Rightarrow> (string \<rightharpoonup> jval) \<Rightarrow> exn + (string \<rightharpoonup> jval))
     \<Rightarrow> (string \<Rightarrow> string \<Rightarrow> (string \<rightharpoonup> jval) \<Rightarrow> exn + (string \<rightharpoonup> jval))
     \<Rightarrow> string \<Rightarrow> (string \<rightharpoonup> jval)
     \<Rightarrow> string \<Rightarrow> message list option \<Rightarrow> string option \<Rightarrow> (string \<rightharpoonup> jval) option
     \<Rightarrow> exn + string" where
  "generate client_chat client_generate default_model default_options prompt history model options =
     (let target_model = target_model_of default_model model;
          request_options = request_options_of default_options options
      in (case generate_body client_chat client_generate target_model request_options history prompt of
            Inr text \<Rightarrow> Inr text
          | Inl e \<Rightarrow> Inr (''[Error generating response: '' @ exn_str e @ '']'')))"

section \<open>The query service (src/services/query_service.py)\<close>

text \<open>
  The prompt template is a format string; it is given as the sequence of literal texts
  and replacement fields that \<open>str.format\<close> reads it as. \<open>format\<close> is called with
  the keywords \<open>context\<close> and \<open>query\<close>, and raises \<open>KeyError\<close> for any other
  field.
\<close>

datatype segment = Lit string | Field string

fun format_template :: "segment list \<Rightarrow> string \<Rightarrow> string \<Rightarrow> exn + string" where
  "format_template [] context_str user_query = Inr []"
| "format_template (Lit t # rest) context_str user_query =
     (case format_template rest context_str user_query of
        Inl e \<Rightarrow> Inl e
      | Inr r \<Rightarrow> Inr (t @ r))"
| "format_template (Field name # rest) context_str user_query =
     (if name = ''context'' then
        (case format_template rest context_str user_query of
           Inl e \<Rightarrow> Inl e
         | Inr r \<Rightarrow> Inr (context_str @ r))
      else if name = ''query'' then
        (case format_template rest context_str user_query of
           Inl e \<Rightarrow> Inl e
         | Inr r \<Rightarrow> Inr (user_query @ r))
      else Inl (KeyError name))"

definition DEFAULT_PROMPT_TEMPLATE :: "segment list" where
  "DEFAULT_PROMPT_TEMPLATE =
     [ Lit (''\<newline>Based on the following context documents, please answer the user's query.\<newline>''
          @ ''Provide a concise and helpful answer grounded in the provided context.\<newline>''
          @ ''If the context doesn't contain the answer, state that you couldn't find relevant ''
          @ ''information in the documents.\<newline>\<newline>Context Documents:\<newline>---\<newline>''),
       Field ''context'',
       Lit ''\<newline>---\<newline>\<newline>User Query: '',
       Field ''query'',
       Lit ''\<newline>\<newline>Answer:\<newline>'' ]"

text \<open>\<open>sep.join(parts)\<close>.\<close>

fun join :: "string \<Rightarrow> string list \<Rightarrow> string" where
  "join sep [] = []"
| "join sep [x] = x"
| "join sep (x # y # rest) = x @ sep @ join sep (y # rest)"

text \<open>
  One record of the context block:
  \<open>f"Source: {metadata.get('source', 'N/A')}, Page: {metadata.get('page', 'N/A')}\n{content}"\<close>.
\<close>

definition get_or_NA :: "metadata \<Rightarrow> string \<Rightarrow> string" where
  "get_or_NA md key = (case md key of None \<Rightarrow> ''N/A'' | Some v \<Rightarrow> py_str v)"

definition format_chunk :: "(metadata, 'f) DocumentChunk \<Rightarrow> string" where
  "format_chunk chunk =
     ''Source: '' @ get_or_NA (metadata chunk) ''source''
       @ '', Page: '' @ get_or_NA (metadata chunk) ''page''
       @ ''\<newline>'' @ content chunk"

definition compose_context :: "(metadata, 'f) DocumentChunk list \<Rightarrow> string" where
  "compose_context retrieved_chunks =
     (if retrieved_chunks = [] then ''No relevant context documents found.''
      else join ''\<newline>---\<newline>'' (map format_chunk retrieved_chunks))"

text \<open>
  The calls the service makes on its collaborators, in order. The embedding model, the
  vector store and the language model are given by what a call returns or raises.
\<close>

datatype 'f call = EmbedQuery string | StoreQuery "'f list" int | Generate string

fun generated_prompts :: "'f call list \<Rightarrow> string list" where
  "generated_prompts [] = []"
| "generated_prompts (Generate prompt # calls) = prompt # generated_prompts calls"
| "generated_prompts (c # calls) = generated_prompts calls"

definition query_steps ::
  "(string \<Rightarrow> exn + 'f list) \<Rightarrow> ('f list \<Rightarrow> int \<Rightarrow> exn + (metadata, 'f) DocumentChunk list)
     \<Rightarrow> (string \<Rightarrow> exn + string) \<Rightarrow> segment list \<Rightarrow> int \<Rightarrow> string
     \<Rightarrow> (exn + string) \<times> 'f call list" where
  "query_steps embed_query store_query llm_generate prompt_template top_k_retrieval user_query =
     (case embed_query user_query of
        Inl e \<Rightarrow> (Inl e, [EmbedQuery user_query])
      | Inr query_embedding \<Rightarrow>
          (if query_embedding = []
           then (Inr ''[Error: Failed to embed query]'', [EmbedQuery user_query])
           else
             (case store_query query_embedding top_k_retrieval of
                Inl e \<Rightarrow> (Inl e, [EmbedQuery user_query, StoreQuery query_embedding top_k_retrieval])
              | Inr retrieved_chunks \<Rightarrow>
                  (let context_str = compose_context retrieved_chunks in
                   (case format_template prompt_template context_str user_query of
                      Inl e \<Rightarrow> (Inl e, [EmbedQuery user_query,
                                         StoreQuery query_embedding top_k_retrieval])
                    | Inr final_prompt \<Rightarrow>
                        (case llm_generate final_prompt of
                           Inl e \<Rightarrow> (Inl e, [EmbedQuery user_query,
                                              StoreQuery query_embedding top_k_retrieval,
                                              Generate final_prompt])
                         | Inr response \<Rightarrow> (Inr response, [EmbedQuery user_query,
                                              StoreQuery query_embedding top_k_retrieval,
                                              Generate final_prompt])))))))"

text \<open>
  \<open>QueryService.query\<close>: the steps inside \<open>try\<close>, and \<open>except Exception\<close>, which
  returns \<open>f"[Error processing query: {e}]"\<close>.
\<close>

definition QueryService_query ::
  "(string \<Rightarrow> exn + 'f list) \<Rightarrow> ('f list \<Rightarrow> int \<Rightarrow> exn + (metadata, 'f) DocumentChunk list)
     \<Rightarrow> (string \<Rightarrow> exn + string) \<Rightarrow> segment list \<Rightarrow> int \<Rightarrow> string
     \<Rightarrow> (exn + string) \<times> 'f call list" where
  "QueryService_query embed_query store_query llm_generate prompt_template top_k_retrieval user_query =
     (case query_steps embed_query store_query llm_generate prompt_template top_k_retrieval user_query of
        (Inr response, calls) \<Rightarrow> (Inr response, calls)
      | (Inl e, calls) \<Rightarrow> (Inr (''[Error processing query: '' @ exn_str e @ '']''), calls))"

section \<open>Sample data for concrete evaluations\<close>

text \<open>
  Four chunks for a store of dimension 2, with integer vector components: two valid
  ones, one without embedding and one with a vector of length 1. The sample distance is
  the sum of the absolute differences of the components.
\<close>

definition chunk_A :: "(metadata, int) DocumentChunk" where
  "chunk_A = \<lparr> chunk_id = ''00000000-0000-4000-8000-00000000000a'', document_id = ''doc-1'', content = ''Alpha'',
               metadata = [''source'' \<mapsto> MStr ''a.txt'', ''chunk_index'' \<mapsto> MInt 0],
               embedding = Some [1, 0] \<rparr>"

definition chunk_B :: "(metadata, int) DocumentChunk" where
  "chunk_B = \<lparr> chunk_id = ''00000000-0000-4000-8000-00000000000b'', document_id = ''doc-1'', content = ''Beta'',
               metadata = [''source'' \<mapsto> MStr ''a.txt'', ''chunk_index'' \<mapsto> MInt 1],
               embedding = None \<rparr>"

definition chunk_C :: "(metadata, int) DocumentChunk" where
  "chunk_C = \<lparr> chunk_id = ''00000000-0000-4000-8000-00000000000c'', document_id = ''doc-1'', content = ''Gamma'',
               metadata = [''source'' \<mapsto> MStr ''a.txt'', ''chunk_index'' \<mapsto> MInt 2],
               embedding = Some [7] \<rparr>"

definition chunk_D :: "(metadata, int) DocumentChunk" where
  "chunk_D = \<lparr> chunk_id = ''00000000-0000-4000-8000-00000000000d'', document_id = ''doc-2'', content = ''Delta'',
               metadata = [''source'' \<mapsto> MStr ''b.pdf'', ''page'' \<mapsto> MInt 3,
                           ''chunk_index'' \<mapsto> MInt 0],
               embedding = Some [0, 1] \<rparr>"

definition row_A :: "int ChunkModel" where
  "row_A = to_chunk_model chunk_A [1, 0]"

definition row_D :: "int ChunkModel" where
  "row_D = to_chunk_model chunk_D [0, 1]"

definition sample_distance :: "int list \<Rightarrow> int list \<Rightarrow> int" where
  "sample_distance u v = sum_list (map (\<lambda>(x, y). \<bar>x - y\<bar>) (zip u v))"




definition no_fault :: "nat \<Rightarrow> exn option" where
  "no_fault j = None"

definition fault_at :: "nat \<Rightarrow> exn \<Rightarrow> nat \<Rightarrow> exn option" where
  "fault_at k e j = (if j = k then Some e else None)"

section \<open>Specification vocabulary for chunking\<close>

text \<open>
  What is visible of a chunk in a state: its parent's id, its text, the contents of
  its metadata dictionary, its embedding. \<open>expected_chunks\<close> is what the chunks of
  one document must look like: the \<open>i\<close>-th text, for \<open>i\<close> from 0 to \<open>n - 1\<close>, with
  the parent's metadata extended by \<open>chunk_index = i\<close>, and no embedding yet.
\<close>

definition chunk_view :: "pystate \<Rightarrow> (ref, 'f) DocumentChunk
    \<Rightarrow> string \<times> string \<times> metadata option \<times> 'f list option" where
  "chunk_view s c = (document_id c, content c, dicts s (metadata c), embedding c)"

definition expected_chunks :: "pystate \<Rightarrow> ref Document \<Rightarrow> string list
    \<Rightarrow> (string \<times> string \<times> metadata option \<times> 'f list option) list" where
  "expected_chunks s doc texts =
     map (\<lambda>i. (doc_id doc, texts ! i,
                 map_option (\<lambda>md. md(''chunk_index'' \<mapsto> MInt (int i))) (dicts s (doc_metadata doc)),
                 None))
       [0 ..< length texts]"

definition texts_of :: "(string \<Rightarrow> exn + string list) \<Rightarrow> ref Document \<Rightarrow> string list" where
  "texts_of split_text doc =
     (case split_text (doc_content doc) of Inr texts \<Rightarrow> texts | Inl e \<Rightarrow> [])"

text \<open>
  Sample documents: two metadata dictionaries in the state, a splitter that yields two
  texts for the first document and one for the second, and an id generator.
\<close>

definition sample_state :: pystate where
  "sample_state = \<lparr> dicts = [0 \<mapsto> [''source'' \<mapsto> MStr ''a.txt''],
                               1 \<mapsto> [''source'' \<mapsto> MStr ''b.pdf'', ''page'' \<mapsto> MInt 3]],
                     next_ref = 2, uuid_count = 0 \<rparr>"

definition doc_1 :: "ref Document" where
  "doc_1 = \<lparr> doc_id = ''doc-1'', doc_content = ''Alpha Beta'', doc_metadata = 0 \<rparr>"

definition doc_2 :: "ref Document" where
  "doc_2 = \<lparr> doc_id = ''doc-2'', doc_content = ''Delta'', doc_metadata = 1 \<rparr>"

definition sample_split :: "string \<Rightarrow> exn + string list" where
  "sample_split text =
     (if text = [] then Inr []
      else if text = ''Alpha Beta'' then Inr [''Alpha'', ''Beta''] else Inr [text])"

definition sample_uuid4 :: "nat \<Rightarrow> string" where
  "sample_uuid4 n = ''00000000-0000-4000-8000-00000000000'' @ str_nat n"

section \<open>Specification vocabulary for the batch loop\<close>

text \<open>
  Batch \<open>k\<close> is the \<open>k\<close>-th slice of \<open>batch_size\<close> chunks; \<open>n\<close> chunks make
  \<open>\<lceil>n / batch_size\<rceil>\<close> batches. The embedding of a batch failed when the model
  returned no vector or a number of vectors that is not the batch's length.
  \<open>batch_outcome\<close> is what processing batch \<open>k\<close> on its own logs, \<open>no_raise\<close> says
  that neither collaborator raises for batch \<open>k\<close>, and \<open>stored_count\<close> is the number
  of chunks an event reports as stored.
\<close>

definition number_of_batches :: "nat \<Rightarrow> nat \<Rightarrow> nat" where
  "number_of_batches batch_size n = (n + batch_size - 1) div batch_size"

definition batch_of :: "nat \<Rightarrow> 'a list \<Rightarrow> nat \<Rightarrow> 'a list" where
  "batch_of batch_size all_chunks k = take batch_size (drop (k * batch_size) all_chunks)"

definition embedding_failed ::
  "(nat \<Rightarrow> string list \<Rightarrow> exn + 'f list list) \<Rightarrow> nat \<Rightarrow> ('m, 'f) DocumentChunk list \<Rightarrow> nat \<Rightarrow> bool" where
  "embedding_failed embed_documents batch_size all_chunks k =
     (case embed_documents k (map content (batch_of batch_size all_chunks k)) of
        Inl e \<Rightarrow> False
      | Inr embeddings \<Rightarrow>
          embeddings = [] \<or> length embeddings \<noteq> length (batch_of batch_size all_chunks k))"

definition batch_outcome ::
  "(nat \<Rightarrow> string list \<Rightarrow> exn + 'f list list)
     \<Rightarrow> (nat \<Rightarrow> ('m, 'f) DocumentChunk list \<Rightarrow> exn + string list)
     \<Rightarrow> nat \<Rightarrow> ('m, 'f) DocumentChunk list \<Rightarrow> nat \<Rightarrow> batch_event" where
  "batch_outcome embed_documents store_add batch_size all_chunks k =
     (if embedding_failed embed_documents batch_size all_chunks k then Skipped
      else
        (case embed_documents k (map content (batch_of batch_size all_chunks k)) of
           Inl e \<Rightarrow> Skipped
         | Inr embeddings \<Rightarrow>
             (case store_add k (attach_embeddings (batch_of batch_size all_chunks k) embeddings) of
                Inl e \<Rightarrow> AddFailed
              | Inr added_ids \<Rightarrow> if added_ids = [] then AddFailed else Added (length added_ids))))"

definition no_raise ::
  "(nat \<Rightarrow> string list \<Rightarrow> exn + 'f list list)
     \<Rightarrow> (nat \<Rightarrow> ('m, 'f) DocumentChunk list \<Rightarrow> exn + string list)
     \<Rightarrow> nat \<Rightarrow> ('m, 'f) DocumentChunk list \<Rightarrow> nat \<Rightarrow> bool" where
  "no_raise embed_documents store_add batch_size all_chunks k =
     (case embed_documents k (map content (batch_of batch_size all_chunks k)) of
        Inl e \<Rightarrow> False
      | Inr embeddings \<Rightarrow>
          embedding_failed embed_documents batch_size all_chunks k \<or>
          (case store_add k (attach_embeddings (batch_of batch_size all_chunks k) embeddings) of
             Inl e \<Rightarrow> False
           | Inr added_ids \<Rightarrow> True))"

definition batch_exception ::
  "(nat \<Rightarrow> string list \<Rightarrow> exn + 'f list list)
     \<Rightarrow> (nat \<Rightarrow> ('m, 'f) DocumentChunk list \<Rightarrow> exn + string list)
     \<Rightarrow> nat \<Rightarrow> ('m, 'f) DocumentChunk list \<Rightarrow> nat \<Rightarrow> exn option" where
  "batch_exception embed_documents store_add batch_size all_chunks k =
     (case embed_documents k (map content (batch_of batch_size all_chunks k)) of
        Inl e \<Rightarrow> Some e
      | Inr embeddings \<Rightarrow>
          if embedding_failed embed_documents batch_size all_chunks k then None
          else
            (case store_add k (attach_embeddings (batch_of batch_size all_chunks k) embeddings) of
               Inl e \<Rightarrow> Some e
             | Inr added_ids \<Rightarrow> None))"

fun stored_count :: "batch_event \<Rightarrow> nat" where
  "stored_count (Added n) = n"
| "stored_count Skipped = 0"
| "stored_count AddFailed = 0"

text \<open>
  Sample collaborators: an embedding model that returns nothing for batch 0, one that
  raises for batch 1, a store that accepts every chunk, and a loader that knows a source
  with one document, a source whose only document is blank, and empty sources. The
  chunks of the first sample document are \<open>chunk_X\<close> and \<open>chunk_Y\<close>.
\<close>

definition sample_embed_skip :: "nat \<Rightarrow> string list \<Rightarrow> exn + int list list" where
  "sample_embed_skip k texts = (if k = 0 then Inr [] else Inr (map (\<lambda>t. [1, 0]) texts))"

definition sample_embed_raise :: "nat \<Rightarrow> string list \<Rightarrow> exn + int list list" where
  "sample_embed_raise k texts =
     (if k = 1 then Inl (RuntimeError ''embedding backend failed'')
      else Inr (map (\<lambda>t. [1, 0]) texts))"

definition sample_embed_ok :: "nat \<Rightarrow> string list \<Rightarrow> exn + int list list" where
  "sample_embed_ok k texts = Inr (map (\<lambda>t. [1, 0]) texts)"

definition sample_store_raise :: "nat \<Rightarrow> (metadata, int) DocumentChunk list \<Rightarrow> exn + string list" where
  "sample_store_raise k chunks =
     (if k = 1 then Inl (RuntimeError ''store unavailable'') else Inr (map chunk_id chunks))"

definition sample_store :: "nat \<Rightarrow> (metadata, int) DocumentChunk list \<Rightarrow> exn + string list" where
  "sample_store k chunks = Inr (map chunk_id chunks)"

definition doc_blank :: "ref Document" where
  "doc_blank = \<lparr> doc_id = ''doc-3'', doc_content = [], doc_metadata = 0 \<rparr>"

definition sample_load :: "string \<Rightarrow> exn + ref Document list" where
  "sample_load source =
     (if source = ''data'' then Inr [doc_1]
      else if source = ''blank'' then Inr [doc_blank]
      else Inr [])"

definition chunk_X :: "(metadata, int) DocumentChunk" where
  "chunk_X = \<lparr> chunk_id = ''00000000-0000-4000-8000-000000000000'', document_id = ''doc-1'', content = ''Alpha'',
               metadata = [''source'' \<mapsto> MStr ''a.txt'', ''chunk_index'' \<mapsto> MInt 0],
               embedding = None \<rparr>"

definition chunk_Y :: "(metadata, int) DocumentChunk" where
  "chunk_Y = \<lparr> chunk_id = ''00000000-0000-4000-8000-000000000001'', document_id = ''doc-1'', content = ''Beta'',
               metadata = [''source'' \<mapsto> MStr ''a.txt'', ''chunk_index'' \<mapsto> MInt 1],
               embedding = None \<rparr>"

section \<open>Specification vocabulary and sample collaborators for the query path\<close>

text \<open>
  The default template with its two fields filled in.
\<close>

definition default_prompt :: "string \<Rightarrow> string \<Rightarrow> string" where
  "default_prompt context_str user_query =
     (''\<newline>Based on the following context documents, please answer the user's query.\<newline>''
      @ ''Provide a concise and helpful answer grounded in the provided context.\<newline>''
      @ ''If the context doesn't contain the answer, state that you couldn't find relevant ''
      @ ''information in the documents.\<newline>\<newline>Context Documents:\<newline>---\<newline>'')
     @ context_str @ ''\<newline>---\<newline>\<newline>User Query: '' @ user_query
     @ ''\<newline>\<newline>Answer:\<newline>''"

text \<open>
  Sample collaborators: an Ollama client whose generate endpoint fails for the prompt
  \<open>fail\<close> and otherwise answers with surrounding whitespace, an embedding model that
  returns no vector for the empty text and raises for the text \<open>boom\<close>, the vector
  store of dimension 2 holding the two sample rows, the same store without rows, and a
  language model with a fixed answer.
\<close>

definition sample_client_generate ::
    "string \<Rightarrow> string \<Rightarrow> (string \<rightharpoonup> jval) \<Rightarrow> exn + (string \<rightharpoonup> jval)" where
  "sample_client_generate model_name prompt opts =
     (if prompt = ''fail'' then Inl (RuntimeError ''connection refused'')
      else Inr [''response'' \<mapsto> JStr ''  An answer.\<newline>''])"

definition sample_client_chat ::
    "string \<Rightarrow> message list \<Rightarrow> (string \<rightharpoonup> jval) \<Rightarrow> exn + (string \<rightharpoonup> jval)" where
  "sample_client_chat model_name messages opts =
     Inr [''message'' \<mapsto> JDict [(''role'', JStr ''assistant''), (''content'', JStr '' Hello '')]]"

definition sample_embed_query :: "string \<Rightarrow> exn + int list" where
  "sample_embed_query text =
     (if text = [] then Inr []
      else if text = ''boom'' then Inl (RuntimeError ''model crashed'')
      else Inr [0, 1])"

definition sample_store_query :: "int list \<Rightarrow> int \<Rightarrow> exn + (metadata, int) DocumentChunk list" where
  "sample_store_query query_embedding top_k =
     query 2 (exact_scan sample_distance [row_A, row_D]) query_embedding top_k []"

definition empty_store_query :: "int list \<Rightarrow> int \<Rightarrow> exn + (metadata, int) DocumentChunk list" where
  "empty_store_query query_embedding top_k =
     query 2 (exact_scan sample_distance []) query_embedding top_k []"

definition sample_llm :: "string \<Rightarrow> exn + string" where
  "sample_llm prompt = Inr ''An answer.''"

definition padded_llm :: "string \<Rightarrow> exn + string" where
  "padded_llm prompt = Inr ''  An answer.\<newline>''"

section \<open>Properties of the vector store\<close>

lemmas sample_defs = chunk_A_def chunk_B_def chunk_C_def chunk_D_def row_A_def row_D_def

lemma add_loop_acc:
  "add_loop dim chunks cms ids =
     (cms @ valid_rows dim chunks, ids @ map chunk_id (filter (passes_validation dim) chunks))"
  by (induction chunks arbitrary: cms ids)
     (auto simp: valid_rows_def passes_validation_def split: option.splits)

lemma valid_rows_Nil_iff:
  "valid_rows dim chunks = [] \<longleftrightarrow> filter (passes_validation dim) chunks = []"
  by (simp add: valid_rows_def)

lemma flush_rows_result:
  "flush_rows db_fault j rows session = (r, s') \<Longrightarrow>
     committed s' = committed session \<and> new_objects s' = new_objects session
     \<and> (r = None \<longrightarrow> inserted s' = inserted session @ rows)"
proof (induction rows arbitrary: j session r s')
  case Nil
  then show ?case by simp
next
  case (Cons row rows)
  show ?case
  proof (cases "db_fault j")
    case (Some e)
    with Cons.prems have "r = Some e" and "s' = session" by simp_all
    then show ?thesis by simp
  next
    case None
    show ?thesis
    proof (cases "cm_id row \<in> set (map cm_id (committed session @ inserted session))")
      case True
      with None Cons.prems have "r = Some (SQLAlchemyError ''IntegrityError'')" and "s' = session"
        by simp_all
      then show ?thesis by simp
    next
      case False
      with None Cons.prems
      have "flush_rows db_fault (Suc j) rows (session\<lparr> inserted := inserted session @ [row] \<rparr>)
              = (r, s')"
        by simp
      from Cons.IH [OF this] show ?thesis by simp
    qed
  qed
qed

lemma session_commit_result:
  assumes "session_commit db_fault session = (r, s')"
  shows "(r = None \<longrightarrow> committed s' = committed session @ inserted session @ new_objects session
                        \<and> inserted s' = [] \<and> new_objects s' = [])
       \<and> (r \<noteq> None \<longrightarrow> committed s' = committed session)"
proof -
  obtain fr fs where f: "flush_rows db_fault 0 (new_objects session) session = (fr, fs)"
    by (cases "flush_rows db_fault 0 (new_objects session) session")
  note F = flush_rows_result [OF f]
  show ?thesis
    using assms F
    by (auto simp: session_commit_def f split: option.splits)
qed

lemma commit_pending:
  assumes "session_commit db_fault (session_add_all (SessionLocal tbl) rows) = (r, s')"
  shows "commit_outcome db_fault tbl rows = r"
    and "r = None \<Longrightarrow> committed s' = tbl @ rows"
    and "r \<noteq> None \<Longrightarrow> committed s' = tbl"
  using session_commit_result [OF assms] assms
  by (auto simp: commit_outcome_def session_add_all_def SessionLocal_def)

lemma add_unfold:
  "add dim db_fault tbl chunks =
     (if valid_rows dim chunks = [] then (Inr [], tbl)
      else (case commit_outcome db_fault tbl (valid_rows dim chunks) of
              None \<Rightarrow> (Inr (map chunk_id (filter (passes_validation dim) chunks)),
                        tbl @ valid_rows dim chunks)
            | Some e \<Rightarrow> (case e of SQLAlchemyError msg \<Rightarrow> (Inr [], tbl) | _ \<Rightarrow> (Inl e, tbl))))"
proof (cases "valid_rows dim chunks = []")
  case True
  then show ?thesis
    by (cases "chunks = []") (simp_all add: add_def add_session_def add_loop_acc SessionLocal_def)
next
  case False
  then have ne: "chunks \<noteq> []" by (auto simp: valid_rows_def)
  obtain r s' where c: "session_commit db_fault
        (session_add_all (SessionLocal tbl) (valid_rows dim chunks)) = (r, s')"
    by (cases "session_commit db_fault (session_add_all (SessionLocal tbl) (valid_rows dim chunks))")
  note C = commit_pending [OF c]
  show ?thesis
  proof (cases r)
    case None
    with C have "committed s' = tbl @ valid_rows dim chunks" by simp
    with None C(1) False ne c show ?thesis
      by (simp add: add_def add_session_def add_loop_acc session_close_def)
  next
    case (Some e)
    with C have "committed s' = tbl" by simp
    with Some C(1) False ne c show ?thesis
      by (cases e)
         (simp_all add: add_def add_session_def add_loop_acc session_close_def session_rollback_def)
  qed
qed

lemma valid_rows_embeddings:
  "\<forall>r \<in> set (valid_rows dim chunks).
      int (length (cm_embedding r)) = dim \<and>
      (\<exists>c \<in> set chunks. passes_validation dim c
           \<and> embedding c = Some (cm_embedding r) \<and> cm_id r = chunk_id c
           \<and> cm_document_id r = document_id c \<and> cm_content r = content c
           \<and> chunk_metadata r = metadata c)"
  by (auto simp: valid_rows_def passes_validation_def to_chunk_model_def split: option.splits)

lemma add_session_clean:
  "inserted (snd (add_session dim db_fault tbl chunks)) = []
   \<and> new_objects (snd (add_session dim db_fault tbl chunks)) = []"
  by (auto simp: add_session_def SessionLocal_def session_close_def session_rollback_def Let_def
        split: prod.splits option.splits exn.splits)

lemma sample_valid_rows:
  "valid_rows 2 [chunk_A, chunk_B, chunk_C, chunk_D] = [row_A, row_D]"
  by (simp add: valid_rows_def passes_validation_def sample_defs)

lemma sample_valid_ids:
  "map chunk_id (filter (passes_validation 2) [chunk_A, chunk_B, chunk_C, chunk_D])
     = [chunk_id chunk_A, chunk_id chunk_D]"
  by (simp add: passes_validation_def sample_defs)

lemma sample_commit_ok:
  "commit_outcome no_fault [] [row_A, row_D] = None"
  by (simp add: commit_outcome_def session_commit_def session_add_all_def SessionLocal_def
        no_fault_def to_chunk_model_def sample_defs)

lemma sample_commit_fault:
  "commit_outcome (fault_at 1 (SQLAlchemyError ''connection lost'')) [row_D] [row_A, row_D]
     = Some (SQLAlchemyError ''connection lost'')"
  by (simp add: commit_outcome_def session_commit_def session_add_all_def SessionLocal_def
        fault_at_def to_chunk_model_def sample_defs)

lemma sample_commit_duplicate:
  "commit_outcome no_fault [row_D] [row_A, row_D] = Some (SQLAlchemyError ''IntegrityError'')"
  by (simp add: commit_outcome_def session_commit_def session_add_all_def SessionLocal_def
        no_fault_def to_chunk_model_def sample_defs)

lemma sample_commit_nul:
  "commit_outcome (fault_at 1 (ValueError ''A string literal cannot contain NUL (0x00) characters''))
       [] [row_A, row_D]
     = Some (ValueError ''A string literal cannot contain NUL (0x00) characters'')"
  by (simp add: commit_outcome_def session_commit_def session_add_all_def SessionLocal_def
        fault_at_def to_chunk_model_def sample_defs)

lemma sample_add_ok:
  "add 2 no_fault [] [chunk_A, chunk_B, chunk_C, chunk_D]
     = (Inr [chunk_id chunk_A, chunk_id chunk_D], [row_A, row_D])"
  by (simp only: add_unfold sample_valid_rows sample_valid_ids sample_commit_ok) simp

lemma sample_add_fault:
  "add 2 (fault_at 1 (SQLAlchemyError ''connection lost'')) [row_D]
       [chunk_A, chunk_B, chunk_C, chunk_D] = (Inr [], [row_D])"
  by (simp only: add_unfold sample_valid_rows sample_valid_ids sample_commit_fault) simp

lemma sample_add_duplicate:
  "add 2 no_fault [row_D] [chunk_A, chunk_B, chunk_C, chunk_D] = (Inr [], [row_D])"
  by (simp only: add_unfold sample_valid_rows sample_valid_ids sample_commit_duplicate) simp

lemma sample_add_nul:
  "add 2 (fault_at 1 (ValueError ''A string literal cannot contain NUL (0x00) characters'')) []
       [chunk_A, chunk_B, chunk_C, chunk_D]
     = (Inl (ValueError ''A string literal cannot contain NUL (0x00) characters''), [])"
  by (simp only: add_unfold sample_valid_rows sample_valid_ids sample_commit_nul) simp

text \<open>
  C1. \<open>add\<close> leaves out of the returned ids every chunk without embedding and every
  chunk whose embedding has not the store's dimension: the ids returned are those of the
  chunks that pass the validation, in input order, or no id at all. When the commit
  succeeds they are exactly the ids of the chunks that pass. The table only ever gains
  the rows of chunks that pass, each with its chunk's embedding as it was given, of the
  store's dimension.
\<close>

theorem add_excludes_invalid_chunks:
  assumes "add dim db_fault tbl chunks = (result, tbl')"
  shows "(\<forall>ids. result = Inr ids
            \<longrightarrow> ids = [] \<or> ids = map chunk_id (filter (passes_validation dim) chunks))
       \<and> (commit_outcome db_fault tbl (valid_rows dim chunks) = None
              \<longrightarrow> result = Inr (map chunk_id (filter (passes_validation dim) chunks)))
       \<and> (tbl' = tbl \<or> tbl' = tbl @ valid_rows dim chunks)
       \<and> (\<forall>r \<in> set (valid_rows dim chunks).
             int (length (cm_embedding r)) = dim \<and>
             (\<exists>c \<in> set chunks. passes_validation dim c
                  \<and> embedding c = Some (cm_embedding r) \<and> cm_id r = chunk_id c
                  \<and> cm_document_id r = document_id c \<and> cm_content r = content c
                  \<and> chunk_metadata r = metadata c))"
proof -
  note rows = valid_rows_embeddings [of dim chunks]
  show ?thesis
  proof (cases "valid_rows dim chunks = []")
    case True
    with assms have "result = Inr []" "tbl' = tbl" by (simp_all add: add_unfold)
    with True rows show ?thesis by (simp add: valid_rows_Nil_iff)
  next
    case False
    show ?thesis
    proof (cases "commit_outcome db_fault tbl (valid_rows dim chunks)")
      case None
      with False assms
      have "result = Inr (map chunk_id (filter (passes_validation dim) chunks))"
        and "tbl' = tbl @ valid_rows dim chunks"
        by (simp_all add: add_unfold)
      with None rows show ?thesis by simp
    next
      case (Some e)
      with False assms have "tbl' = tbl" and "result = Inr [] \<or> result = Inl e"
        by (cases e; simp add: add_unfold)+
      with Some rows show ?thesis by auto
    qed
  qed
qed

theorem add_excludes_invalid_chunks_witness:
  "add 2 no_fault [] [chunk_A, chunk_B, chunk_C, chunk_D]
     = (Inr [chunk_id chunk_A, chunk_id chunk_D], [row_A, row_D])
   \<and> commit_outcome no_fault [] (valid_rows 2 [chunk_A, chunk_B, chunk_C, chunk_D]) = None
   \<and> map chunk_id (filter (passes_validation 2) [chunk_A, chunk_B, chunk_C, chunk_D])
       = [chunk_id chunk_A, chunk_id chunk_D]
   \<and> int (length (cm_embedding row_A)) = 2 \<and> int (length (cm_embedding row_D)) = 2
   \<and> embedding chunk_A = Some (cm_embedding row_A) \<and> embedding chunk_D = Some (cm_embedding row_D)"
  using add_excludes_invalid_chunks [OF sample_add_ok]
  unfolding sample_valid_rows sample_valid_ids sample_commit_ok sample_add_ok
  by (simp add: sample_defs to_chunk_model_def)

text \<open>
  C4, as the code has it. One call of \<open>add\<close> is one transaction: either the rows of
  all chunks that pass the validation are appended to the table and their ids returned,
  or the table is what it was. The first happens when the commit succeeds. When the
  commit raises an \<open>SQLAlchemyError\<close>, at whichever row or at \<open>COMMIT\<close>, the table is
  what it was and no id is returned. When the commit raises any other exception, the
  table is what it was and the exception leaves \<open>add\<close>. No other table is ever
  produced, and the call leaves no row behind in an open transaction.
\<close>

theorem add_is_atomic:
  assumes "add dim db_fault tbl chunks = (result, tbl')"
  shows "((tbl' = tbl @ valid_rows dim chunks
            \<and> result = Inr (map chunk_id (filter (passes_validation dim) chunks)))
           \<or> (tbl' = tbl \<and> (result = Inr [] \<or> (\<exists>e. result = Inl e))))
       \<and> (commit_outcome db_fault tbl (valid_rows dim chunks) = None
              \<longrightarrow> tbl' = tbl @ valid_rows dim chunks
                \<and> result = Inr (map chunk_id (filter (passes_validation dim) chunks)))
       \<and> (\<forall>msg. commit_outcome db_fault tbl (valid_rows dim chunks) = Some (SQLAlchemyError msg)
              \<longrightarrow> tbl' = tbl \<and> result = Inr [])
       \<and> (\<forall>e. commit_outcome db_fault tbl (valid_rows dim chunks) = Some e
               \<and> (\<forall>msg. e \<noteq> SQLAlchemyError msg) \<and> valid_rows dim chunks \<noteq> []
              \<longrightarrow> tbl' = tbl \<and> result = Inl e)
       \<and> inserted (snd (add_session dim db_fault tbl chunks)) = []
       \<and> new_objects (snd (add_session dim db_fault tbl chunks)) = []
       \<and> committed (snd (add_session dim db_fault tbl chunks)) = tbl'"
proof (cases "valid_rows dim chunks = []")
  case True
  with assms have "result = Inr []" "tbl' = tbl" by (simp_all add: add_unfold)
  with True show ?thesis using assms
    by (simp add: valid_rows_Nil_iff add_session_clean) (auto simp: add_def split: prod.splits)
next
  case False
  from assms have fin: "committed (snd (add_session dim db_fault tbl chunks)) = tbl'"
    by (auto simp: add_def split: prod.splits)
  show ?thesis
  proof (cases "commit_outcome db_fault tbl (valid_rows dim chunks)")
    case None
    with False assms
    have "result = Inr (map chunk_id (filter (passes_validation dim) chunks))"
      and "tbl' = tbl @ valid_rows dim chunks"
      by (simp_all add: add_unfold)
    with None show ?thesis using fin by (simp add: add_session_clean)
  next
    case (Some e)
    show ?thesis
    proof (cases "\<exists>msg. e = SQLAlchemyError msg")
      case True
      with Some False assms have "tbl' = tbl" and "result = Inr []"
        by (auto simp: add_unfold)
      with Some True show ?thesis using fin by (auto simp: add_session_clean)
    next
      case other: False
      with Some False assms have "tbl' = tbl" and "result = Inl e"
        by (cases e; simp add: add_unfold)+
      with Some other show ?thesis using fin by (auto simp: add_session_clean)
    qed
  qed
qed

theorem add_is_atomic_witness:
  "add 2 no_fault [] [chunk_A, chunk_B, chunk_C, chunk_D]
     = (Inr [chunk_id chunk_A, chunk_id chunk_D], [row_A, row_D])
   \<and> commit_outcome no_fault [] (valid_rows 2 [chunk_A, chunk_B, chunk_C, chunk_D]) = None
   \<and> [row_A, row_D] = [] @ valid_rows 2 [chunk_A, chunk_B, chunk_C, chunk_D]
   \<and> add 2 (fault_at 1 (SQLAlchemyError ''connection lost'')) [row_D]
        [chunk_A, chunk_B, chunk_C, chunk_D] = (Inr [], [row_D])
   \<and> commit_outcome (fault_at 1 (SQLAlchemyError ''connection lost'')) [row_D]
        (valid_rows 2 [chunk_A, chunk_B, chunk_C, chunk_D])
       = Some (SQLAlchemyError ''connection lost'')
   \<and> add 2 no_fault [row_D] [chunk_A, chunk_B, chunk_C, chunk_D] = (Inr [], [row_D])
   \<and> add 2 (fault_at 1 (ValueError ''A string literal cannot contain NUL (0x00) characters'')) []
        [chunk_A, chunk_B, chunk_C, chunk_D]
       = (Inl (ValueError ''A string literal cannot contain NUL (0x00) characters''), [])"
  using add_is_atomic [OF sample_add_ok] add_is_atomic [OF sample_add_fault]
    add_is_atomic [OF sample_add_duplicate] add_is_atomic [OF sample_add_nul]
  unfolding sample_valid_rows sample_valid_ids sample_commit_ok sample_commit_fault
    sample_commit_duplicate sample_commit_nul
    sample_add_ok sample_add_fault sample_add_duplicate sample_add_nul
  by simp

text \<open>
  C4 as stated fails: when the driver raises a \<open>ValueError\<close> (as it does for a text
  with a NUL character) while the second row is inserted, the commit has failed, and
  \<open>add\<close> does not return the empty id list: the exception leaves \<open>add\<close>.
\<close>

theorem add_raises_counterexample:
  "commit_outcome (fault_at 1 (ValueError ''A string literal cannot contain NUL (0x00) characters''))
       [] (valid_rows 2 [chunk_A, chunk_B, chunk_C, chunk_D])
     = Some (ValueError ''A string literal cannot contain NUL (0x00) characters'')
   \<and> fst (add 2 (fault_at 1 (ValueError ''A string literal cannot contain NUL (0x00) characters''))
            [] [chunk_A, chunk_B, chunk_C, chunk_D]) \<noteq> Inr []
   \<and> fst (add 2 (fault_at 1 (ValueError ''A string literal cannot contain NUL (0x00) characters''))
            [] [chunk_A, chunk_B, chunk_C, chunk_D])
       = Inl (ValueError ''A string literal cannot contain NUL (0x00) characters'')"
  unfolding sample_valid_rows sample_commit_nul sample_add_nul
  by simp

lemma query_invalid:
  "query_embedding = [] \<or> int (length query_embedding) \<noteq> dim \<Longrightarrow>
   query dim execute query_embedding top_k filters = Inr []"
  by (auto simp: query_def)

lemma query_empty_store:
  "query dim (exact_scan cosine_distance []) query_embedding top_k filters = Inr []"
  by (simp add: query_def exact_scan_def ranked_rows_def)


lemma sample_query_full:
  "query 2 (exact_scan sample_distance [row_A, row_D]) [0, 1] 5 []
     = Inr [to_document_chunk row_D, to_document_chunk row_A]"
  by (simp add: query_def exact_scan_def ranked_rows_def build_stmt_def matches_where_def
        sample_distance_def sample_defs to_chunk_model_def)

text \<open>
  C2, as the code has it. An empty query embedding and one whose length is not the
  store's dimension make \<open>query\<close> return the empty list, whatever the database holds
  or does; this is the very value a query on an empty store returns, so the caller
  cannot tell the two apart.
\<close>

theorem query_rejects_with_empty_list:
  assumes "query_embedding = [] \<or> int (length query_embedding) \<noteq> dim"
  shows "query dim execute query_embedding top_k filters = Inr []
       \<and> query dim execute query_embedding top_k filters
           = query dim (exact_scan cosine_distance []) other_embedding other_top_k other_filters"
  using assms by (simp add: query_invalid query_empty_store)

theorem query_rejects_with_empty_list_witness:
  "(([] :: int list) = [] \<or> int (length ([] :: int list)) \<noteq> 2)
   \<and> query 2 (exact_scan sample_distance [row_A, row_D]) [] 5 [] = Inr []
   \<and> query 2 (exact_scan sample_distance [row_A, row_D]) [] 5 []
        = query 2 (exact_scan sample_distance []) [0, 1] 5 []"
  using query_rejects_with_empty_list [of "[]" 2 "exact_scan sample_distance [row_A, row_D]" 5 "[]"
          sample_distance "[0, 1]" 5 "[]"]
  by (simp add: query_empty_store)

text \<open>
  C2 as stated fails: on a store of dimension 2 holding two chunks, the empty query
  embedding and the embedding \<open>[1, 2, 3]\<close> of length 3 give the same result as the valid
  embedding \<open>[0, 1]\<close> on the empty store.
\<close>

theorem query_invalid_counterexample:
  "query 2 (exact_scan sample_distance [row_A, row_D]) [] 5 []
     = query 2 (exact_scan sample_distance []) [0, 1] 5 []
   \<and> query 2 (exact_scan sample_distance [row_A, row_D]) [1, 2, 3] 5 []
     = query 2 (exact_scan sample_distance []) [0, 1] 5 []"
  by (simp add: query_empty_store) (simp add: query_def)










section \<open>Properties of chunking\<close>

lemma chunk_texts_state:
  "chunk_texts uuid4 doc its s = (chunks :: (ref, 'f) DocumentChunk list, s') \<Longrightarrow> doc_metadata doc < next_ref s \<Longrightarrow>
     next_ref s' = next_ref s + length its
   \<and> (\<forall>r < next_ref s. dicts s' r = dicts s r)
   \<and> (\<forall>c \<in> set chunks. next_ref s \<le> metadata c \<and> metadata c < next_ref s')
   \<and> map (chunk_view s') chunks
       = map (\<lambda>(i, t). (doc_id doc, t,
                 map_option (\<lambda>md. md(''chunk_index'' \<mapsto> MInt (int i))) (dicts s (doc_metadata doc)),
                 None)) its"
proof (induction its arbitrary: s chunks s')
  case Nil
  then show ?case by simp
next
  case (Cons it its)
  obtain i t where it: "it = (i, t)" by (cases it)
  let ?r = "next_ref s"
  let ?s3 = "snd (new_uuid uuid4 (dict_setitem (snd (dict_copy s (doc_metadata doc))) ?r ''chunk_index'' (MInt (int i))))"
  obtain rest :: "(ref, 'f) DocumentChunk list" and s4
    where rec: "chunk_texts uuid4 doc its ?s3 = (rest, s4)"
    by (cases "chunk_texts uuid4 doc its ?s3 :: (ref, 'f) DocumentChunk list \<times> pystate")
  have nr: "next_ref ?s3 = Suc ?r"
    by (simp add: new_uuid_def dict_setitem_def dict_copy_def)
  have old: "\<forall>r < ?r. dicts ?s3 r = dicts s r"
    by (simp add: new_uuid_def dict_setitem_def dict_copy_def)
  have new: "dicts ?s3 ?r = map_option (\<lambda>md. md(''chunk_index'' \<mapsto> MInt (int i))) (dicts s (doc_metadata doc))"
    by (simp add: new_uuid_def dict_setitem_def dict_copy_def)
  from Cons.prems(2) nr have lt: "doc_metadata doc < next_ref ?s3" by simp
  note IH = Cons.IH [OF rec lt]
  from Cons.prems(1) rec it
  have res: "chunks = \<lparr> chunk_id = uuid4 (uuid_count s), document_id = doc_id doc, content = t,
                    metadata = ?r, embedding = None \<rparr> # rest" and s': "s' = s4"
    by (simp_all add: Let_def dict_copy_def new_uuid_def dict_setitem_def split: prod.splits)
  have par: "dicts ?s3 (doc_metadata doc) = dicts s (doc_metadata doc)"
    using old Cons.prems(2) by simp
  have keep: "dicts s4 ?r = dicts ?s3 ?r" using IH nr by simp
  have c1: "next_ref s' = next_ref s + length (it # its)"
    using IH nr by (simp add: s')
  have c2: "\<forall>r < next_ref s. dicts s' r = dicts s r"
    using IH nr old by (simp add: s')
  have hd: "chunk_view s4 \<lparr> chunk_id = uuid4 (uuid_count s), document_id = doc_id doc, content = t,
                    metadata = ?r, embedding = None :: 'f list option \<rparr>
              = (doc_id doc, t,
                 map_option (\<lambda>md. md(''chunk_index'' \<mapsto> MInt (int i))) (dicts s (doc_metadata doc)),
                 None)"
    by (simp add: chunk_view_def) (simp only: keep new)
  have tl: "map (chunk_view s4) rest
       = map (\<lambda>(i, t). (doc_id doc, t,
                 map_option (\<lambda>md. md(''chunk_index'' \<mapsto> MInt (int i))) (dicts s (doc_metadata doc)),
                 None)) its"
    using IH unfolding par by blast
  have c3: "map (chunk_view s') chunks
       = map (\<lambda>(i, t). (doc_id doc, t,
                 map_option (\<lambda>md. md(''chunk_index'' \<mapsto> MInt (int i))) (dicts s (doc_metadata doc)),
                 None)) (it # its)"
    unfolding res s' it list.map hd tl by simp
  have c4: "\<forall>c \<in> set chunks. next_ref s \<le> metadata c \<and> metadata c < next_ref s'"
    using IH nr by (auto simp: res s')
  from c1 c2 c3 c4 show ?case by blast
qed

lemma split_document_state:
  assumes "split_document uuid4 doc texts s = (chunks, s')" and "doc_metadata doc < next_ref s"
  shows "next_ref s \<le> next_ref s'
   \<and> (\<forall>r < next_ref s. dicts s' r = dicts s r)
   \<and> (\<forall>c \<in> set chunks. next_ref s \<le> metadata c \<and> metadata c < next_ref s')
   \<and> map (chunk_view s') chunks = expected_chunks s doc texts"
proof -
  from assms have c: "chunk_texts uuid4 doc (List.enumerate 0 texts) s = (chunks, s')"
    by (simp add: split_document_def)
  have e: "map (\<lambda>(i, t). (doc_id doc, t,
                 map_option (\<lambda>md. md(''chunk_index'' \<mapsto> MInt (int i))) (dicts s (doc_metadata doc)),
                 None :: 'a list option)) (List.enumerate 0 texts) = expected_chunks s doc texts"
    by (rule nth_equalityI) (simp_all add: expected_chunks_def nth_enumerate_eq)
  from chunk_texts_state [OF c assms(2)] show ?thesis unfolding e by auto
qed


lemma expected_chunks_cong:
  "dicts s1 (doc_metadata doc) = dicts s (doc_metadata doc) \<Longrightarrow>
   expected_chunks s1 doc texts = expected_chunks s doc texts"
  by (simp add: expected_chunks_def)

lemma chunk_view_cong:
  "dicts s2 (metadata c) = dicts s1 (metadata c) \<Longrightarrow> chunk_view s2 c = chunk_view s1 c"
  by (simp add: chunk_view_def)

lemma chunk_documents_state:
  "chunk_documents split_text uuid4 documents s = Inr (chunks :: (ref, 'f) DocumentChunk list, s') \<Longrightarrow>
   \<forall>doc \<in> set documents. doc_metadata doc < next_ref s \<Longrightarrow>
     next_ref s \<le> next_ref s'
   \<and> (\<forall>r < next_ref s. dicts s' r = dicts s r)
   \<and> (\<forall>c \<in> set chunks. next_ref s \<le> metadata c \<and> metadata c < next_ref s')
   \<and> map (chunk_view s') chunks
       = concat (map (\<lambda>doc. expected_chunks s doc (texts_of split_text doc)) documents)"
proof (induction documents arbitrary: s chunks s')
  case Nil
  then show ?case by simp
next
  case (Cons doc documents)
  from Cons.prems(1) obtain texts where sp: "split_text (doc_content doc) = Inr texts"
    by (cases "split_text (doc_content doc)") simp_all
  obtain cs :: "(ref, 'f) DocumentChunk list" and s1
    where sd: "split_document uuid4 doc texts s = (cs, s1)"
    by (cases "split_document uuid4 doc texts s :: (ref, 'f) DocumentChunk list \<times> pystate")
  from Cons.prems(1) sp sd obtain others s2
    where cd: "chunk_documents split_text uuid4 documents s1 = Inr (others, s2)"
      and res: "chunks = cs @ others" and s': "s' = s2"
    by (auto split: sum.splits prod.splits)
  from Cons.prems(2) have lt: "doc_metadata doc < next_ref s" by simp
  note A = split_document_state [OF sd lt]
  from Cons.prems(2) A have lts: "\<forall>d \<in> set documents. doc_metadata d < next_ref s1" by fastforce
  note B = Cons.IH [OF cd lts]
  have c1: "next_ref s \<le> next_ref s'" using A B by (simp add: s')
  have c2: "\<forall>r < next_ref s. dicts s' r = dicts s r" using A B by (simp add: s')
  have c3: "\<forall>c \<in> set chunks. next_ref s \<le> metadata c \<and> metadata c < next_ref s'"
    using A B by (fastforce simp: res s')
  have "map (chunk_view s2) cs = map (chunk_view s1) cs"
    using A B by (intro map_cong refl chunk_view_cong) simp
  then have h: "map (chunk_view s2) cs = expected_chunks s doc (texts_of split_text doc)"
    using A by (simp add: texts_of_def sp)
  have e2: "map (\<lambda>d. expected_chunks s1 d (texts_of split_text d)) documents
          = map (\<lambda>d. expected_chunks s d (texts_of split_text d)) documents"
    using A Cons.prems(2) by (intro map_cong refl expected_chunks_cong) simp
  have t: "map (chunk_view s2) others
          = concat (map (\<lambda>d. expected_chunks s d (texts_of split_text d)) documents)"
    using B unfolding e2 by blast
  have c4: "map (chunk_view s') chunks
       = concat (map (\<lambda>doc. expected_chunks s doc (texts_of split_text doc)) (doc # documents))"
    by (simp add: res s' h t)
  from c1 c2 c3 c4 show ?case by blast
qed

lemma sample_chunking:
  "\<exists>chunks s'. chunk_documents sample_split sample_uuid4 [doc_1, doc_2] sample_state
      = Inr (chunks :: (ref, int) DocumentChunk list, s')"
  by (simp add: sample_split_def doc_1_def doc_2_def split_document_def enumerate_eq_zip Let_def
        split: prod.splits)

text \<open>
  C7. When the documents of a run are chunked, the chunks are, document after document
  and in split order, the texts of the document with index 0 to \<open>n - 1\<close>: the
  metadata dictionary of the \<open>i\<close>-th chunk holds the parent's metadata and
  \<open>chunk_index = i\<close>. Every chunk's dictionary is an object of its own, none is a
  document's, and the documents' dictionaries hold afterwards what they held before.
\<close>

theorem chunking_assigns_indexes:
  assumes "chunk_documents split_text uuid4 documents s = Inr (chunks :: (ref, 'f) DocumentChunk list, s')"
      and "\<forall>doc \<in> set documents. doc_metadata doc < next_ref s"
  shows "map (chunk_view s') chunks
           = concat (map (\<lambda>doc. expected_chunks s doc (texts_of split_text doc)) documents)
       \<and> (\<forall>doc \<in> set documents. dicts s' (doc_metadata doc) = dicts s (doc_metadata doc))
       \<and> (\<forall>c \<in> set chunks. \<forall>doc \<in> set documents. metadata c \<noteq> doc_metadata doc)"
proof -
  note A = chunk_documents_state [OF assms]
  have "\<forall>doc \<in> set documents. dicts s' (doc_metadata doc) = dicts s (doc_metadata doc)"
    using A assms(2) by simp
  moreover have "\<forall>c \<in> set chunks. \<forall>doc \<in> set documents. metadata c \<noteq> doc_metadata doc"
    using A assms(2) by fastforce
  ultimately show ?thesis using A by blast
qed

theorem chunking_assigns_indexes_witness:
  "doc_metadata doc_1 < next_ref sample_state \<and> doc_metadata doc_2 < next_ref sample_state
   \<and> (case chunk_documents sample_split sample_uuid4 [doc_1, doc_2] sample_state of
         Inl e \<Rightarrow> False
       | Inr (chunks, s') \<Rightarrow>
           map (chunk_view s') chunks
             = [(''doc-1'', ''Alpha'', Some [''source'' \<mapsto> MStr ''a.txt'', ''chunk_index'' \<mapsto> MInt 0],
                   None :: int list option),
                (''doc-1'', ''Beta'', Some [''source'' \<mapsto> MStr ''a.txt'', ''chunk_index'' \<mapsto> MInt 1], None),
                (''doc-2'', ''Delta'', Some [''source'' \<mapsto> MStr ''b.pdf'', ''page'' \<mapsto> MInt 3,
                                              ''chunk_index'' \<mapsto> MInt 0], None)]
           \<and> dicts s' 0 = Some [''source'' \<mapsto> MStr ''a.txt'']
           \<and> dicts s' 1 = Some [''source'' \<mapsto> MStr ''b.pdf'', ''page'' \<mapsto> MInt 3])"
proof -
  from sample_chunking obtain chunks :: "(ref, int) DocumentChunk list" and s'
    where r: "chunk_documents sample_split sample_uuid4 [doc_1, doc_2] sample_state = Inr (chunks, s')"
    by blast
  have p: "\<forall>doc \<in> set [doc_1, doc_2]. doc_metadata doc < next_ref sample_state"
    by (simp add: doc_1_def doc_2_def sample_state_def)
  have e: "concat (map (\<lambda>doc. expected_chunks sample_state doc (texts_of sample_split doc)) [doc_1, doc_2])
             = [(''doc-1'', ''Alpha'', Some [''source'' \<mapsto> MStr ''a.txt'', ''chunk_index'' \<mapsto> MInt 0],
                   None :: int list option),
                (''doc-1'', ''Beta'', Some [''source'' \<mapsto> MStr ''a.txt'', ''chunk_index'' \<mapsto> MInt 1], None),
                (''doc-2'', ''Delta'', Some [''source'' \<mapsto> MStr ''b.pdf'', ''page'' \<mapsto> MInt 3,
                                              ''chunk_index'' \<mapsto> MInt 0], None)]"
    by (simp add: expected_chunks_def texts_of_def sample_split_def doc_1_def doc_2_def
          sample_state_def upt_rec)
  from chunking_assigns_indexes [OF r p] show ?thesis
    unfolding e r by (simp add: doc_1_def doc_2_def sample_state_def)
qed

section \<open>Properties of the ingestion service\<close>

lemma batches_done_iff:
  "0 < bs \<Longrightarrow> n \<le> k * bs \<longleftrightarrow> number_of_batches bs n \<le> k"
proof -
  assume bs: "0 < bs"
  have "number_of_batches bs n \<le> k \<longleftrightarrow> n + bs - 1 < (k + 1) * bs"
    unfolding number_of_batches_def using bs
    by (metis Suc_eq_plus1 div_less_iff_less_mult less_Suc_eq_le)
  also have "\<dots> \<longleftrightarrow> n \<le> k * bs" using bs by (cases bs) auto
  finally show ?thesis by simp
qed

lemma process_batches_done:
  "length all_chunks \<le> i \<Longrightarrow>
   process_batches embed_documents store_add bs all_chunks i added log = (None, added, log)"
  by (subst process_batches.simps) simp

lemma process_batches_step:
  assumes "0 < bs" and "k * bs < length all_chunks"
      and "no_raise embed_documents store_add bs all_chunks k"
  shows "process_batches embed_documents store_add bs all_chunks (k * bs) added log =
         process_batches embed_documents store_add bs all_chunks (Suc k * bs)
           (added + stored_count (batch_outcome embed_documents store_add bs all_chunks k))
           (log @ [batch_outcome embed_documents store_add bs all_chunks k])"
  using assms
  by (subst process_batches.simps)
     (auto simp: no_raise_def batch_outcome_def embedding_failed_def batch_of_def Let_def
           add.commute split: sum.splits)

lemma process_batches_from:
  assumes "0 < bs"
      and "\<forall>k < number_of_batches bs (length all_chunks).
             no_raise embed_documents store_add bs all_chunks k"
  shows "k0 \<le> number_of_batches bs (length all_chunks) \<Longrightarrow>
         process_batches embed_documents store_add bs all_chunks (k0 * bs) added log =
           (None,
            added + sum_list (map (\<lambda>k. stored_count (batch_outcome embed_documents store_add bs all_chunks k))
                        [k0 ..< number_of_batches bs (length all_chunks)]),
            log @ map (batch_outcome embed_documents store_add bs all_chunks)
                        [k0 ..< number_of_batches bs (length all_chunks)])"
proof (induction "number_of_batches bs (length all_chunks) - k0" arbitrary: k0 added log)
  case 0
  then have "number_of_batches bs (length all_chunks) \<le> k0" by simp
  with assms(1) have "length all_chunks \<le> k0 * bs" by (simp add: batches_done_iff)
  with 0 show ?case by (simp add: process_batches_done)
next
  case (Suc d)
  then have lt: "k0 < number_of_batches bs (length all_chunks)" by simp
  with assms(1) have "k0 * bs < length all_chunks"
    using batches_done_iff [of bs "length all_chunks" k0] by simp
  moreover from assms(2) lt have "no_raise embed_documents store_add bs all_chunks k0" by simp
  ultimately have st: "process_batches embed_documents store_add bs all_chunks (k0 * bs) added log =
         process_batches embed_documents store_add bs all_chunks (Suc k0 * bs)
           (added + stored_count (batch_outcome embed_documents store_add bs all_chunks k0))
           (log @ [batch_outcome embed_documents store_add bs all_chunks k0])"
    using assms(1) by (intro process_batches_step)
  from Suc lt have "d = number_of_batches bs (length all_chunks) - Suc k0"
    and "Suc k0 \<le> number_of_batches bs (length all_chunks)" by simp_all
  from Suc.hyps(1) [OF this] lt show ?case
    by (simp only: st) (simp add: upt_conv_Cons)
qed

lemma sample_all_chunks:
  "\<exists>objs s'. chunk_documents sample_split sample_uuid4 [doc_1] sample_state = Inr (objs, s')
      \<and> map (resolve s') objs = [chunk_X, chunk_Y]"
  by (simp add: sample_split_def doc_1_def split_document_def enumerate_eq_zip Let_def
        dict_copy_def dict_setitem_def new_uuid_def sample_state_def resolve_def sample_uuid4_def
        chunk_X_def chunk_Y_def upt_rec
        split: prod.splits)

lemma sample_batches_skip:
  "process_batches sample_embed_skip sample_store 1 [chunk_X, chunk_Y] 0 0 [] = (None, 1, [Skipped, Added 1])"
  apply (subst process_batches.simps)
  apply (simp add: sample_embed_skip_def)
  apply (subst process_batches.simps)
  apply (simp add: sample_embed_skip_def sample_store_def attach_embeddings_def)
  apply (subst process_batches.simps)
  apply simp
  done

lemma sample_batches_raise:
  "process_batches sample_embed_raise sample_store 1 [chunk_X, chunk_Y] 0 0 []
     = (Some (RuntimeError ''embedding backend failed''), 1, [Added 1])"
  apply (subst process_batches.simps)
  apply (simp add: sample_embed_raise_def sample_store_def attach_embeddings_def)
  apply (subst process_batches.simps)
  apply (simp add: sample_embed_raise_def)
  done

lemma sample_load_data: "sample_load ''data'' = Inr [doc_1]"
  by (simp add: sample_load_def)

lemma sample_outcomes_skip:
  "embedding_failed sample_embed_skip 1 [chunk_X, chunk_Y] 0"
  "\<not> embedding_failed sample_embed_skip 1 [chunk_X, chunk_Y] 1"
  "no_raise sample_embed_skip sample_store 1 [chunk_X, chunk_Y] 0"
  "no_raise sample_embed_skip sample_store 1 [chunk_X, chunk_Y] 1"
  by (simp_all add: embedding_failed_def no_raise_def batch_of_def sample_embed_skip_def
        sample_store_def)

lemma run_ingestion_batches:
  assumes "load source = Inr documents" and "documents \<noteq> []"
      and "chunk_documents split_text uuid4 documents s = Inr (chunk_objects, s')"
      and "chunk_objects \<noteq> []" and "0 < batch_size"
  shows "run_ingestion load split_text embed_documents store_add uuid4 batch_size s source
           = (case process_batches embed_documents store_add (nat batch_size)
                     (map (resolve s') chunk_objects) 0 0 [] of
                (Some e, added, log) \<Rightarrow> False
              | (None, added, log) \<Rightarrow> 0 < added)"
  using assms by (simp add: run_ingestion_def)

lemma sample_run_raise:
  "\<not> run_ingestion sample_load sample_split sample_embed_raise sample_store sample_uuid4 1
       sample_state ''data''"
proof -
  from sample_all_chunks obtain objs s'
    where r: "chunk_documents sample_split sample_uuid4 [doc_1] sample_state = Inr (objs, s')"
      and m: "map (resolve s') objs = [chunk_X, chunk_Y]"
    by (elim exE conjE)
  from m have ne: "objs \<noteq> []" by auto
  have pos: "(0::int) < 1" by simp
  have d: "[doc_1] \<noteq> []" by simp
  show ?thesis
    unfolding run_ingestion_batches [of sample_load "''data''" "[doc_1]" sample_split sample_uuid4
        sample_state objs s' 1, OF sample_load_data d r ne pos] m
    by (simp add: sample_batches_raise [unfolded One_nat_def])
qed

lemma no_raise_iff:
  "no_raise embed_documents store_add bs all_chunks k
     \<longleftrightarrow> batch_exception embed_documents store_add bs all_chunks k = None"
  by (auto simp: no_raise_def batch_exception_def split: sum.splits)

lemma process_batches_raise:
  assumes "0 < bs" and "k * bs < length all_chunks"
      and "batch_exception embed_documents store_add bs all_chunks k = Some e"
  shows "process_batches embed_documents store_add bs all_chunks (k * bs) added log
           = (Some e, added, log)"
  using assms
  by (subst process_batches.simps)
     (auto simp: batch_exception_def embedding_failed_def batch_of_def Let_def
           split: sum.splits if_splits)

lemma process_batches_until:
  assumes "0 < bs" and "k1 < number_of_batches bs (length all_chunks)"
      and "\<forall>k < k1. no_raise embed_documents store_add bs all_chunks k"
      and "batch_exception embed_documents store_add bs all_chunks k1 = Some e"
  shows "k0 \<le> k1 \<Longrightarrow>
         process_batches embed_documents store_add bs all_chunks (k0 * bs) added log =
           (Some e,
            added + sum_list (map (\<lambda>k. stored_count (batch_outcome embed_documents store_add bs all_chunks k))
                        [k0 ..< k1]),
            log @ map (batch_outcome embed_documents store_add bs all_chunks) [k0 ..< k1])"
proof (induction "k1 - k0" arbitrary: k0 added log)
  case 0
  then have eq: "k0 = k1" by simp
  from assms(1,2) have "k1 * bs < length all_chunks"
    using batches_done_iff [of bs "length all_chunks" k1] by simp
  with assms(1,4) show ?case
    by (simp add: eq process_batches_raise)
next
  case (Suc d)
  then have lt: "k0 < k1" by simp
  with assms(2) have "k0 < number_of_batches bs (length all_chunks)" by simp
  with assms(1) have "k0 * bs < length all_chunks"
    using batches_done_iff [of bs "length all_chunks" k0] by simp
  moreover from assms(3) lt have "no_raise embed_documents store_add bs all_chunks k0" by simp
  ultimately have st: "process_batches embed_documents store_add bs all_chunks (k0 * bs) added log =
         process_batches embed_documents store_add bs all_chunks (Suc k0 * bs)
           (added + stored_count (batch_outcome embed_documents store_add bs all_chunks k0))
           (log @ [batch_outcome embed_documents store_add bs all_chunks k0])"
    using assms(1) by (intro process_batches_step)
  from Suc lt have "d = k1 - Suc k0" and "Suc k0 \<le> k1" by simp_all
  from Suc.hyps(1) [OF this] lt show ?case
    by (simp only: st) (simp add: upt_conv_Cons)
qed

lemma outcome_skipped_iff:
  "no_raise embed_documents store_add bs all_chunks k \<Longrightarrow>
   batch_outcome embed_documents store_add bs all_chunks k = Skipped
     \<longleftrightarrow> embedding_failed embed_documents bs all_chunks k"
  by (auto simp: no_raise_def batch_outcome_def split: sum.splits)

text \<open>
  C5, as the code has it. Take a run that reaches the batch loop with a positive batch
  size. If no collaborator raises, every batch is processed, whatever happened to the
  batches before it: the log has one event for each of the batches, the event of batch
  \<open>k\<close> is \<open>Skipped\<close> exactly when the embedding of batch \<open>k\<close> failed, and the run
  returns \<open>True\<close> exactly when the number of chunks stored over all batches is
  positive. If batch \<open>k1\<close> is the first for which the embedding model or the store
  raises, the batches before it are processed in the same way, the loop stops at batch
  \<open>k1\<close>, and the run returns \<open>False\<close>, whatever number of chunks the batches before
  it stored.
\<close>

theorem ingestion_skips_bad_batches:
  assumes "load source = Inr documents" and "documents \<noteq> []"
      and "chunk_documents split_text uuid4 documents s = Inr (chunk_objects, s')"
      and "chunk_objects \<noteq> []" and "0 < batch_size"
  shows "let all_chunks = map (resolve s') chunk_objects;
             bs = nat batch_size;
             n = number_of_batches bs (length all_chunks);
             outcome = batch_outcome embed_documents store_add bs all_chunks;
             stored = (\<lambda>m. sum_list (map stored_count (map outcome [0 ..< m])))
         in ((\<forall>k < n. no_raise embed_documents store_add bs all_chunks k) \<longrightarrow>
               process_batches embed_documents store_add bs all_chunks 0 0 []
                 = (None, stored n, map outcome [0 ..< n])
               \<and> (\<forall>k < n. map outcome [0 ..< n] ! k = Skipped
                      \<longleftrightarrow> embedding_failed embed_documents bs all_chunks k)
               \<and> run_ingestion load split_text embed_documents store_add uuid4 batch_size s source
                   = (0 < stored n))
          \<and> (\<forall>k1 e. k1 < n
                 \<and> (\<forall>k < k1. no_raise embed_documents store_add bs all_chunks k)
                 \<and> batch_exception embed_documents store_add bs all_chunks k1 = Some e \<longrightarrow>
               process_batches embed_documents store_add bs all_chunks 0 0 []
                 = (Some e, stored k1, map outcome [0 ..< k1])
               \<and> (\<forall>k < k1. map outcome [0 ..< k1] ! k = Skipped
                      \<longleftrightarrow> embedding_failed embed_documents bs all_chunks k)
               \<and> \<not> run_ingestion load split_text embed_documents store_add uuid4 batch_size s source)"
proof -
  let ?bs = "nat batch_size"
  let ?all = "map (resolve s') chunk_objects"
  let ?n = "number_of_batches ?bs (length ?all)"
  let ?out = "batch_outcome embed_documents store_add ?bs ?all"
  let ?stored = "\<lambda>m. sum_list (map stored_count (map ?out [0 ..< m]))"
  from assms(5) have bs: "0 < ?bs" by simp
  have ri: "run_ingestion load split_text embed_documents store_add uuid4 batch_size s source
           = (case process_batches embed_documents store_add ?bs ?all 0 0 [] of
                (Some e, added, log) \<Rightarrow> False
              | (None, added, log) \<Rightarrow> 0 < added)"
    using assms by (rule run_ingestion_batches)
  have one: "(\<forall>k < ?n. no_raise embed_documents store_add ?bs ?all k) \<longrightarrow>
               process_batches embed_documents store_add ?bs ?all 0 0 []
                 = (None, ?stored ?n, map ?out [0 ..< ?n])
               \<and> (\<forall>k < ?n. map ?out [0 ..< ?n] ! k = Skipped
                      \<longleftrightarrow> embedding_failed embed_documents ?bs ?all k)
               \<and> run_ingestion load split_text embed_documents store_add uuid4 batch_size s source
                   = (0 < ?stored ?n)"
  proof
    assume nr: "\<forall>k < ?n. no_raise embed_documents store_add ?bs ?all k"
    have pb: "process_batches embed_documents store_add ?bs ?all 0 0 []
                = (None, ?stored ?n, map ?out [0 ..< ?n])"
      using process_batches_from [OF bs nr, of 0 0 "[]"] by (simp add: comp_def)
    have sk: "\<forall>k < ?n. map ?out [0 ..< ?n] ! k = Skipped
                \<longleftrightarrow> embedding_failed embed_documents ?bs ?all k"
      using nr by (simp add: outcome_skipped_iff)
    have "run_ingestion load split_text embed_documents store_add uuid4 batch_size s source
            = (0 < ?stored ?n)"
      by (simp add: ri pb)
    with pb sk show "process_batches embed_documents store_add ?bs ?all 0 0 []
                 = (None, ?stored ?n, map ?out [0 ..< ?n])
               \<and> (\<forall>k < ?n. map ?out [0 ..< ?n] ! k = Skipped
                      \<longleftrightarrow> embedding_failed embed_documents ?bs ?all k)
               \<and> run_ingestion load split_text embed_documents store_add uuid4 batch_size s source
                   = (0 < ?stored ?n)"
      by blast
  qed
  have two: "\<forall>k1 e. k1 < ?n
                 \<and> (\<forall>k < k1. no_raise embed_documents store_add ?bs ?all k)
                 \<and> batch_exception embed_documents store_add ?bs ?all k1 = Some e \<longrightarrow>
               process_batches embed_documents store_add ?bs ?all 0 0 []
                 = (Some e, ?stored k1, map ?out [0 ..< k1])
               \<and> (\<forall>k < k1. map ?out [0 ..< k1] ! k = Skipped
                      \<longleftrightarrow> embedding_failed embed_documents ?bs ?all k)
               \<and> \<not> run_ingestion load split_text embed_documents store_add uuid4 batch_size s source"
  proof (intro allI impI)
    fix k1 e
    assume h: "k1 < ?n
                 \<and> (\<forall>k < k1. no_raise embed_documents store_add ?bs ?all k)
                 \<and> batch_exception embed_documents store_add ?bs ?all k1 = Some e"
    then have k1: "k1 < ?n" and nr: "\<forall>k < k1. no_raise embed_documents store_add ?bs ?all k"
      and ex: "batch_exception embed_documents store_add ?bs ?all k1 = Some e"
      by simp_all
    have pb: "process_batches embed_documents store_add ?bs ?all 0 0 []
                = (Some e, ?stored k1, map ?out [0 ..< k1])"
      using process_batches_until [OF bs k1 nr ex, of 0 0 "[]"] by (simp add: comp_def)
    have sk: "\<forall>k < k1. map ?out [0 ..< k1] ! k = Skipped
                \<longleftrightarrow> embedding_failed embed_documents ?bs ?all k"
      using nr by (simp add: outcome_skipped_iff)
    have "\<not> run_ingestion load split_text embed_documents store_add uuid4 batch_size s source"
      by (simp add: ri pb)
    with pb sk show "process_batches embed_documents store_add ?bs ?all 0 0 []
                 = (Some e, ?stored k1, map ?out [0 ..< k1])
               \<and> (\<forall>k < k1. map ?out [0 ..< k1] ! k = Skipped
                      \<longleftrightarrow> embedding_failed embed_documents ?bs ?all k)
               \<and> \<not> run_ingestion load split_text embed_documents store_add uuid4 batch_size s source"
      by blast
  qed
  from one two show ?thesis unfolding Let_def by blast
qed

lemma sample_batch_count: "number_of_batches 1 (length [chunk_X, chunk_Y]) = 2"
  by (simp add: number_of_batches_def)

lemma sample_outcomes_raise:
  "no_raise sample_embed_raise sample_store 1 [chunk_X, chunk_Y] 0"
  "batch_exception sample_embed_raise sample_store 1 [chunk_X, chunk_Y] 1
     = Some (RuntimeError ''embedding backend failed'')"
  "no_raise sample_embed_ok sample_store_raise 1 [chunk_X, chunk_Y] 0"
  "batch_exception sample_embed_ok sample_store_raise 1 [chunk_X, chunk_Y] 1
     = Some (RuntimeError ''store unavailable'')"
  by (simp_all add: embedding_failed_def no_raise_def batch_exception_def batch_of_def
        sample_embed_raise_def sample_embed_ok_def sample_store_def sample_store_raise_def)

theorem ingestion_skips_bad_batches_witness:
  "sample_load ''data'' = Inr [doc_1]
   \<and> (case chunk_documents sample_split sample_uuid4 [doc_1] sample_state of
         Inl e \<Rightarrow> False
       | Inr (objs, s') \<Rightarrow> map (resolve s') objs = [chunk_X, chunk_Y])
   \<and> embedding_failed sample_embed_skip 1 [chunk_X, chunk_Y] 0
   \<and> process_batches sample_embed_skip sample_store 1 [chunk_X, chunk_Y] 0 0 []
        = (None, 1, [Skipped, Added 1])
   \<and> run_ingestion sample_load sample_split sample_embed_skip sample_store sample_uuid4 1
        sample_state ''data''
   \<and> batch_exception sample_embed_raise sample_store 1 [chunk_X, chunk_Y] 1
        = Some (RuntimeError ''embedding backend failed'')
   \<and> \<not> run_ingestion sample_load sample_split sample_embed_raise sample_store sample_uuid4 1
          sample_state ''data''
   \<and> batch_exception sample_embed_ok sample_store_raise 1 [chunk_X, chunk_Y] 1
        = Some (RuntimeError ''store unavailable'')
   \<and> \<not> run_ingestion sample_load sample_split sample_embed_ok sample_store_raise sample_uuid4 1
          sample_state ''data''"
proof -
  from sample_all_chunks obtain objs s'
    where r: "chunk_documents sample_split sample_uuid4 [doc_1] sample_state = Inr (objs, s')"
      and m: "map (resolve s') objs = [chunk_X, chunk_Y]"
    by (elim exE conjE)
  from m have ne: "objs \<noteq> []" by auto
  have pos: "(0::int) < 1" by simp
  have d: "[doc_1] \<noteq> []" by simp
  have n1: "nat 1 = (1::nat)" by simp
  note T1 = ingestion_skips_bad_batches [of sample_load "''data''" "[doc_1]" sample_split sample_uuid4
        sample_state objs s' 1 sample_embed_skip sample_store, OF sample_load_data d r ne pos,
        unfolded Let_def m sample_batch_count n1]
  note T2 = ingestion_skips_bad_batches [of sample_load "''data''" "[doc_1]" sample_split sample_uuid4
        sample_state objs s' 1 sample_embed_raise sample_store, OF sample_load_data d r ne pos,
        unfolded Let_def m sample_batch_count n1]
  note T3 = ingestion_skips_bad_batches [of sample_load "''data''" "[doc_1]" sample_split sample_uuid4
        sample_state objs s' 1 sample_embed_ok sample_store_raise, OF sample_load_data d r ne pos,
        unfolded Let_def m sample_batch_count n1]
  have all2: "\<forall>k < 2. no_raise sample_embed_skip sample_store 1 [chunk_X, chunk_Y] k"
    using sample_outcomes_skip by (auto simp: less_2_cases_iff)
  from T1 all2
  have "run_ingestion sample_load sample_split sample_embed_skip sample_store sample_uuid4 1
          sample_state ''data''
        = (0 < sum_list (map stored_count
                (map (batch_outcome sample_embed_skip sample_store 1 [chunk_X, chunk_Y]) [0 ..< 2])))"
    and "process_batches sample_embed_skip sample_store 1 [chunk_X, chunk_Y] 0 0 []
        = (None, sum_list (map stored_count
                (map (batch_outcome sample_embed_skip sample_store 1 [chunk_X, chunk_Y]) [0 ..< 2])),
           map (batch_outcome sample_embed_skip sample_store 1 [chunk_X, chunk_Y]) [0 ..< 2])"
    by blast+
  then have run1: "run_ingestion sample_load sample_split sample_embed_skip sample_store
          sample_uuid4 1 sample_state ''data''"
    using sample_batches_skip by simp
  have one: "(1::nat) < 2" by simp
  have all1a: "\<forall>k < 1. no_raise sample_embed_raise sample_store 1 [chunk_X, chunk_Y] k"
    using sample_outcomes_raise by simp
  have all1b: "\<forall>k < 1. no_raise sample_embed_ok sample_store_raise 1 [chunk_X, chunk_Y] k"
    using sample_outcomes_raise by simp
  from T2 one all1a sample_outcomes_raise(2)
  have run2: "\<not> run_ingestion sample_load sample_split sample_embed_raise sample_store
          sample_uuid4 1 sample_state ''data''"
    by blast
  from T3 one all1b sample_outcomes_raise(4)
  have run3: "\<not> run_ingestion sample_load sample_split sample_embed_ok sample_store_raise
          sample_uuid4 1 sample_state ''data''"
    by blast
  show ?thesis
    unfolding r
    using run1 run2 run3 m sample_outcomes_skip sample_outcomes_raise sample_batches_skip
      sample_load_data
    by simp
qed

text \<open>
  C5 as stated fails when a collaborator raises: with two chunks in batches of one, the
  first batch is stored, the embedding model raises for the second, and the run returns
  \<open>False\<close> although one chunk has been stored.
\<close>

theorem ingestion_abort_counterexample:
  "sample_load ''data'' = Inr [doc_1]
   \<and> (case chunk_documents sample_split sample_uuid4 [doc_1] sample_state of
         Inl e \<Rightarrow> False
       | Inr (objs, s') \<Rightarrow> map (resolve s') objs = [chunk_X, chunk_Y])
   \<and> process_batches sample_embed_raise sample_store 1 [chunk_X, chunk_Y] 0 0 []
        = (Some (RuntimeError ''embedding backend failed''), 1, [Added 1])
   \<and> \<not> run_ingestion sample_load sample_split sample_embed_raise sample_store sample_uuid4 1
          sample_state ''data''"
proof -
  from sample_all_chunks obtain objs s'
    where r: "chunk_documents sample_split sample_uuid4 [doc_1] sample_state = Inr (objs, s')"
      and m: "map (resolve s') objs = [chunk_X, chunk_Y]"
    by (elim exE conjE)
  show ?thesis
    unfolding r using m sample_run_raise sample_batches_raise sample_load_data by simp
qed

section \<open>Properties of the ingestion entry point\<close>

lemma run_ingestion_no_documents:
  "load source = Inr [] \<Longrightarrow>
   \<not> run_ingestion load split_text embed_documents store_add uuid4 batch_size s source"
  by (simp add: run_ingestion_def)

lemma run_ingestion_no_chunks:
  "load source = Inr documents \<Longrightarrow>
   chunk_documents split_text uuid4 documents s = Inr ([] :: (ref, 'f) DocumentChunk list, s') \<Longrightarrow>
   \<not> run_ingestion load split_text
       (embed_documents :: nat \<Rightarrow> string list \<Rightarrow> exn + 'f list list)
       store_add uuid4 batch_size s source"
  by (simp add: run_ingestion_def)

lemma main_exit_code:
  "main init_fault load split_text embed_documents store_add uuid4 batch_size s source =
     (if init_fault = None \<and>
         (run_ingestion load split_text embed_documents store_add uuid4 batch_size s source
          \<or> load source = Inr [])
      then 0 else 1)"
  by (auto simp: main_def Let_def split: option.splits sum.splits)

text \<open>
  C6, as the code has it. A source with no document and a source whose documents give
  no chunk make \<open>run_ingestion\<close> return the same value, \<open>False\<close>. The entry point
  exits with 0 for the first and with 1 for the second: after a failed run it exits
  with 0 only when loading the source again gives no document.
\<close>

theorem nothing_ingested_exit_codes:
  assumes "load empty_source = Inr []"
      and "load source = Inr documents" and "documents \<noteq> []"
      and "chunk_documents split_text uuid4 documents s = Inr ([] :: (ref, 'f) DocumentChunk list, s')"
  shows "run_ingestion load split_text
           (embed_documents :: nat \<Rightarrow> string list \<Rightarrow> exn + 'f list list)
           store_add uuid4 batch_size s empty_source
           = run_ingestion load split_text embed_documents store_add uuid4 batch_size s source
       \<and> \<not> run_ingestion load split_text embed_documents store_add uuid4 batch_size s source
       \<and> main None load split_text embed_documents store_add uuid4 batch_size s empty_source = 0
       \<and> main None load split_text embed_documents store_add uuid4 batch_size s source = 1"
proof -
  have a: "\<not> run_ingestion load split_text embed_documents store_add uuid4 batch_size s empty_source"
    using assms(1) by (rule run_ingestion_no_documents)
  have b: "\<not> run_ingestion load split_text embed_documents store_add uuid4 batch_size s source"
    using assms(2,4) by (rule run_ingestion_no_chunks)
  have c: "main None load split_text embed_documents store_add uuid4 batch_size s empty_source = 0"
    using assms(1) by (simp add: main_exit_code)
  have d: "main None load split_text embed_documents store_add uuid4 batch_size s source = 1"
    using assms(2,3) b by (simp add: main_exit_code)
  from a b c d show ?thesis by simp
qed

lemma sample_load_blank: "sample_load ''blank'' = Inr [doc_blank]"
  by (simp add: sample_load_def)

lemma sample_load_none: "sample_load ''none'' = Inr []"
  by (simp add: sample_load_def)

lemma sample_blank_chunks:
  "chunk_documents sample_split sample_uuid4 [doc_blank] sample_state
     = Inr ([] :: (ref, int) DocumentChunk list, sample_state)"
  by (simp add: sample_split_def doc_blank_def split_document_def)

theorem nothing_ingested_exit_codes_witness:
  "sample_load ''none'' = Inr [] \<and> sample_load ''blank'' = Inr [doc_blank]
   \<and> chunk_documents sample_split sample_uuid4 [doc_blank] sample_state
        = Inr ([] :: (ref, int) DocumentChunk list, sample_state)
   \<and> \<not> run_ingestion sample_load sample_split sample_embed_skip sample_store sample_uuid4 1
          sample_state ''blank''
   \<and> main None sample_load sample_split sample_embed_skip sample_store sample_uuid4 1
        sample_state ''none'' = 0
   \<and> main None sample_load sample_split sample_embed_skip sample_store sample_uuid4 1
        sample_state ''blank'' = 1"
proof -
  have d: "[doc_blank] \<noteq> []" by simp
  from nothing_ingested_exit_codes [of sample_load "''none''" "''blank''" "[doc_blank]" sample_split
      sample_uuid4 sample_state sample_state sample_embed_skip sample_store 1,
      OF sample_load_none sample_load_blank d sample_blank_chunks]
  show ?thesis
    using sample_load_none sample_load_blank sample_blank_chunks by simp
qed

text \<open>
  C6 as stated fails: for a source whose only document is blank, the splitter gives no
  chunk and the entry point exits with 1, not 0.
\<close>

theorem blank_document_exit_counterexample:
  "sample_load ''blank'' = Inr [doc_blank]
   \<and> chunk_documents sample_split sample_uuid4 [doc_blank] sample_state
        = Inr ([] :: (ref, int) DocumentChunk list, sample_state)
   \<and> main None sample_load sample_split sample_embed_skip sample_store sample_uuid4 1
        sample_state ''blank'' \<noteq> 0"
proof -
  have "\<not> run_ingestion sample_load sample_split sample_embed_skip sample_store sample_uuid4 1
          sample_state ''blank''"
    using sample_load_blank sample_blank_chunks by (rule run_ingestion_no_chunks)
  then have "main None sample_load sample_split sample_embed_skip sample_store sample_uuid4 1
        sample_state ''blank'' = 1"
    by (simp add: main_exit_code sample_load_blank)
  then show ?thesis using sample_load_blank sample_blank_chunks by simp
qed

section \<open>Properties of the generation provider\<close>

lemma strip_prefix: "\<exists>w. dropWhile is_space t = strip t @ w"
proof -
  have "dropWhile is_space t
          = strip t @ rev (takeWhile is_space (rev (dropWhile is_space t)))"
    unfolding strip_def
    by (metis rev_append rev_rev_ident takeWhile_dropWhile_id)
  then show ?thesis ..
qed

lemma strip_no_leading: "dropWhile is_space (strip t) = strip t"
proof (cases "strip t = []")
  case True
  then show ?thesis by simp
next
  case False
  from strip_prefix obtain w where w: "dropWhile is_space t = strip t @ w" ..
  with False have "hd (strip t) = hd (dropWhile is_space t)" by simp
  moreover from w False have "dropWhile is_space t \<noteq> []" by auto
  then have "\<not> is_space (hd (dropWhile is_space t))" by (rule hd_dropWhile)
  ultimately have "\<not> is_space (hd (strip t))" by simp
  with False show ?thesis by (cases "strip t") simp_all
qed

lemma strip_no_trailing: "dropWhile is_space (rev (strip t)) = rev (strip t)"
  by (simp add: strip_def)

lemma generate_total:
  "\<exists>text. generate client_chat client_generate default_model default_options
             prompt history model options = Inr text"
  by (simp add: generate_def Let_def split: sum.splits)

lemma generate_catch:
  "generate client_chat client_generate default_model default_options prompt history model options =
     (case generate_body client_chat client_generate (target_model_of default_model model)
             (request_options_of default_options options) history prompt of
        Inr text \<Rightarrow> Inr text
      | Inl e \<Rightarrow> Inr (''[Error generating response: '' @ exn_str e @ '']''))"
  by (simp add: generate_def Let_def)

text \<open>
  C10. \<open>generate\<close> always returns a string and never raises. Without history it
  calls the generate endpoint, with history the chat endpoint with the prompt appended
  as the last user turn; when the endpoint returns a text, the result is that text
  stripped; when the endpoint raises, the result is the bracketed message with the
  exception's text. A stripped text neither starts nor ends with whitespace. Success
  and failure are both plain strings.
\<close>

theorem generate_never_raises:
  "(\<exists>text. generate client_chat client_generate default_model default_options
             prompt history model options = Inr text)
 \<and> (\<forall>response t.
       (history = None \<or> history = Some [])
       \<and> client_generate (target_model_of default_model model) prompt
            (request_options_of default_options options) = Inr response
       \<and> response ''response'' = Some (JStr t)
       \<longrightarrow> generate client_chat client_generate default_model default_options
             prompt history model options = Inr (strip t))
 \<and> (\<forall>e.
       (history = None \<or> history = Some [])
       \<and> client_generate (target_model_of default_model model) prompt
            (request_options_of default_options options) = Inl e
       \<longrightarrow> generate client_chat client_generate default_model default_options
             prompt history model options
            = Inr (''[Error generating response: '' @ exn_str e @ '']''))
 \<and> (\<forall>turns response d t.
       history = Some turns \<and> turns \<noteq> []
       \<and> client_chat (target_model_of default_model model)
            (turns @ [[(''role'', ''user''), (''content'', prompt)]])
            (request_options_of default_options options) = Inr response
       \<and> response ''message'' = Some (JDict d) \<and> map_of d ''content'' = Some (JStr t)
       \<longrightarrow> generate client_chat client_generate default_model default_options
             prompt history model options = Inr (strip t))
 \<and> (\<forall>turns e.
       history = Some turns \<and> turns \<noteq> []
       \<and> client_chat (target_model_of default_model model)
            (turns @ [[(''role'', ''user''), (''content'', prompt)]])
            (request_options_of default_options options) = Inl e
       \<longrightarrow> generate client_chat client_generate default_model default_options
             prompt history model options
            = Inr (''[Error generating response: '' @ exn_str e @ '']''))
 \<and> (\<forall>t. dropWhile is_space (strip t) = strip t
         \<and> dropWhile is_space (rev (strip t)) = rev (strip t))"
proof (intro conjI allI impI)
  show "\<exists>text. generate client_chat client_generate default_model default_options
             prompt history model options = Inr text"
    by (rule generate_total)
qed (auto simp: generate_catch generate_body_def strip_text_def get_content_def Let_def
      strip_no_leading strip_no_trailing)

lemma sample_strip: "strip ''  An answer.\<newline>'' = ''An answer.''" "strip '' Hello '' = ''Hello''"
  by (simp_all add: strip_def is_space_def)

theorem generate_never_raises_witness:
  "generate sample_client_chat sample_client_generate ''llama3'' Map.empty
      ''hi'' None None None = Inr ''An answer.''
   \<and> generate sample_client_chat sample_client_generate ''llama3'' Map.empty
      ''fail'' None None None = Inr ''[Error generating response: connection refused]''
   \<and> generate sample_client_chat sample_client_generate ''llama3'' Map.empty
      ''hi'' (Some [[(''role'', ''user''), (''content'', ''hello'')]]) None None = Inr ''Hello''"
  using generate_never_raises [of sample_client_chat sample_client_generate "''llama3''" Map.empty
          "''hi''" None None None]
        generate_never_raises [of sample_client_chat sample_client_generate "''llama3''" Map.empty
          "''fail''" None None None]
        generate_never_raises [of sample_client_chat sample_client_generate "''llama3''" Map.empty
          "''hi''" "Some [[(''role'', ''user''), (''content'', ''hello'')]]" None None]
  by (simp add: sample_client_generate_def sample_client_chat_def sample_strip)

section \<open>Properties of the query service\<close>

lemma join_append:
  "xs \<noteq> [] \<Longrightarrow> ys \<noteq> [] \<Longrightarrow> join sep (xs @ ys) = join sep xs @ sep @ join sep ys"
proof (induction sep xs rule: join.induct)
  case (2 sep x)
  then show ?case by (cases ys) simp_all
qed simp_all

lemma compose_context_append:
  "xs \<noteq> [] \<Longrightarrow> ys \<noteq> [] \<Longrightarrow>
   compose_context (xs @ ys) = compose_context xs @ ''\<newline>---\<newline>'' @ compose_context ys"
  by (simp add: compose_context_def join_append)

lemma generate_plain_success:
  "client_generate (target_model_of default_model None) prompt (request_options_of default_options None)
     = Inr response \<Longrightarrow> response ''response'' = Some (JStr t) \<Longrightarrow>
   generate client_chat client_generate default_model default_options prompt None None None
     = Inr (strip t)"
  by (simp add: generate_catch generate_body_def strip_text_def)

lemma query_steps_success:
  assumes "embed_query user_query = Inr query_embedding" and "query_embedding \<noteq> []"
      and "store_query query_embedding top_k = Inr retrieved"
      and "format_template prompt_template (compose_context retrieved) user_query = Inr final_prompt"
  shows "query_steps embed_query store_query llm_generate prompt_template top_k user_query =
     (llm_generate final_prompt,
      [EmbedQuery user_query, StoreQuery query_embedding top_k, Generate final_prompt])"
  using assms by (simp add: query_steps_def Let_def split: sum.splits)

lemma query_catch:
  "QueryService_query embed_query store_query llm_generate prompt_template top_k user_query =
     (case fst (query_steps embed_query store_query llm_generate prompt_template top_k user_query) of
        Inr response \<Rightarrow> Inr response
      | Inl e \<Rightarrow> Inr (''[Error processing query: '' @ exn_str e @ '']''),
      snd (query_steps embed_query store_query llm_generate prompt_template top_k user_query))"
  by (simp add: QueryService_query_def split: prod.splits sum.splits)

lemma format_default_prompt:
  "format_template DEFAULT_PROMPT_TEMPLATE context_str user_query
     = Inr (default_prompt context_str user_query)"
  by (simp add: DEFAULT_PROMPT_TEMPLATE_def default_prompt_def)

lemma sample_embed_what: "sample_embed_query ''What?'' = Inr [0, 1]"
  by (simp add: sample_embed_query_def)

lemma sample_store_what:
  "sample_store_query [0, 1] 5 = Inr [to_document_chunk row_D, to_document_chunk row_A]"
  by (simp only: sample_store_query_def sample_query_full)

lemma empty_store_what: "empty_store_query [0, 1] 5 = Inr []"
  by (simp add: empty_store_query_def query_empty_store)

lemma sample_context:
  "compose_context [to_document_chunk row_D, to_document_chunk row_A]
     = ''Source: b.pdf, Page: 3\<newline>Delta\<newline>---\<newline>Source: a.txt, Page: N/A\<newline>Alpha''"
  by (simp add: compose_context_def format_chunk_def get_or_NA_def to_document_chunk_def
        to_chunk_model_def sample_defs str_int_def)

text \<open>
  C8. When the query has been embedded and the store has answered, the context block is
  the marker \<open>No relevant context documents found.\<close> for no chunk, and otherwise the
  records of the retrieved chunks in the order the store returned them, one record for
  each chunk, separated by a line of three dashes: the block of a list is the block of
  its front part, the separator, and the block of its rest. A record is the source, the
  page (\<open>N/A\<close> when the metadata has none) and the content. The prompt made from the
  template and this block is passed to the language model, and this is the service's
  only call of the language model. The default template always yields a prompt.
\<close>

theorem context_block_composition:
  assumes "embed_query user_query = Inr query_embedding" and "query_embedding \<noteq> []"
      and "store_query query_embedding top_k = Inr retrieved"
      and "format_template prompt_template (compose_context retrieved) user_query = Inr final_prompt"
  shows "compose_context ([] :: (metadata, 'f) DocumentChunk list) = ''No relevant context documents found.''
       \<and> (retrieved \<noteq> [] \<longrightarrow>
            compose_context retrieved = join ''\<newline>---\<newline>'' (map format_chunk retrieved))
       \<and> (\<forall>c :: (metadata, 'f) DocumentChunk. compose_context [c] = format_chunk c)
       \<and> (\<forall>xs ys :: (metadata, 'f) DocumentChunk list. xs \<noteq> [] \<and> ys \<noteq> [] \<longrightarrow>
            compose_context (xs @ ys)
              = compose_context xs @ ''\<newline>---\<newline>'' @ compose_context ys)
       \<and> snd (QueryService_query embed_query store_query llm_generate prompt_template top_k user_query)
            = [EmbedQuery user_query, StoreQuery (query_embedding :: 'f list) top_k, Generate final_prompt]
       \<and> generated_prompts
            (snd (QueryService_query embed_query store_query llm_generate prompt_template top_k user_query))
            = [final_prompt]
       \<and> format_template DEFAULT_PROMPT_TEMPLATE (compose_context retrieved) user_query
            = Inr (default_prompt (compose_context retrieved) user_query)"
proof -
  have c: "snd (QueryService_query embed_query store_query llm_generate prompt_template top_k user_query)
            = [EmbedQuery user_query, StoreQuery query_embedding top_k, Generate final_prompt]"
    using assms by (simp add: query_catch query_steps_success)
  then show ?thesis
    by (simp add: compose_context_append format_default_prompt) (simp add: compose_context_def)
qed

theorem context_block_composition_witness:
  "sample_embed_query ''What?'' = Inr [0, 1]
   \<and> sample_store_query [0, 1] 5 = Inr [to_document_chunk row_D, to_document_chunk row_A]
   \<and> compose_context [to_document_chunk row_D, to_document_chunk row_A]
        = ''Source: b.pdf, Page: 3\<newline>Delta\<newline>---\<newline>Source: a.txt, Page: N/A\<newline>Alpha''
   \<and> generated_prompts (snd (QueryService_query sample_embed_query sample_store_query sample_llm
          DEFAULT_PROMPT_TEMPLATE 5 ''What?''))
        = [default_prompt
             ''Source: b.pdf, Page: 3\<newline>Delta\<newline>---\<newline>Source: a.txt, Page: N/A\<newline>Alpha''
             ''What?'']
   \<and> empty_store_query [0, 1] 5 = Inr []
   \<and> generated_prompts (snd (QueryService_query sample_embed_query empty_store_query sample_llm
          DEFAULT_PROMPT_TEMPLATE 5 ''What?''))
        = [default_prompt ''No relevant context documents found.'' ''What?'']"
proof -
  have ne: "([0, 1] :: int list) \<noteq> []" by simp
  have f1: "format_template DEFAULT_PROMPT_TEMPLATE
              (compose_context [to_document_chunk row_D, to_document_chunk row_A]) ''What?''
            = Inr (default_prompt
             ''Source: b.pdf, Page: 3\<newline>Delta\<newline>---\<newline>Source: a.txt, Page: N/A\<newline>Alpha''
             ''What?'')"
    by (simp only: format_default_prompt sample_context)
  have c0: "compose_context ([] :: (metadata, int) DocumentChunk list)
              = ''No relevant context documents found.''"
    by (simp add: compose_context_def)
  have f2: "format_template DEFAULT_PROMPT_TEMPLATE
              (compose_context ([] :: (metadata, int) DocumentChunk list)) ''What?''
            = Inr (default_prompt ''No relevant context documents found.'' ''What?'')"
    by (simp only: format_default_prompt c0)
  note A = context_block_composition [of sample_embed_query "''What?''" "[0, 1]" sample_store_query 5
      "[to_document_chunk row_D, to_document_chunk row_A]" DEFAULT_PROMPT_TEMPLATE _ sample_llm,
      OF sample_embed_what ne sample_store_what f1]
  note B = context_block_composition [of sample_embed_query "''What?''" "[0, 1]" empty_store_query 5
      "[]" DEFAULT_PROMPT_TEMPLATE _ sample_llm,
      OF sample_embed_what ne empty_store_what f2]
  from A B sample_embed_what sample_store_what sample_context empty_store_what
  show ?thesis by blast
qed

text \<open>
  C9, as the code has it. \<open>QueryService.query\<close> always returns a string, whatever
  its collaborators return or raise. An empty query embedding ends the query with the message
  \<open>[Error: Failed to embed query]\<close> after the one call of the embedding model; an
  exception from the embedding model, the store, the template or the language model
  gives \<open>[Error processing query: ...]\<close> with the exception's text. On success the
  result is the language model's answer exactly as the collaborator returned it; the
  service strips nothing. With the Ollama provider as the language model the answer
  is the generated text stripped of surrounding whitespace, because the provider strips
  it.
\<close>

theorem query_never_raises:
  "(\<exists>text. fst (QueryService_query embed_query store_query llm_generate prompt_template top_k user_query)
        = Inr text)
 \<and> (embed_query user_query = Inr [] \<longrightarrow>
      QueryService_query embed_query store_query llm_generate prompt_template top_k user_query
        = (Inr ''[Error: Failed to embed query]'', [EmbedQuery user_query]))
 \<and> (\<forall>e. embed_query user_query = Inl e \<longrightarrow>
      QueryService_query embed_query store_query llm_generate prompt_template top_k user_query
        = (Inr (''[Error processing query: '' @ exn_str e @ '']''), [EmbedQuery user_query]))
 \<and> (\<forall>qe e. embed_query user_query = Inr qe \<and> qe \<noteq> [] \<and> store_query qe top_k = Inl e \<longrightarrow>
      QueryService_query embed_query store_query llm_generate prompt_template top_k user_query
        = (Inr (''[Error processing query: '' @ exn_str e @ '']''),
           [EmbedQuery user_query, StoreQuery qe top_k]))
 \<and> (\<forall>qe cs e. embed_query user_query = Inr qe \<and> qe \<noteq> [] \<and> store_query qe top_k = Inr cs
        \<and> format_template prompt_template (compose_context cs) user_query = Inl e \<longrightarrow>
      QueryService_query embed_query store_query llm_generate prompt_template top_k user_query
        = (Inr (''[Error processing query: '' @ exn_str e @ '']''),
           [EmbedQuery user_query, StoreQuery qe top_k]))
 \<and> (\<forall>qe cs p e. embed_query user_query = Inr qe \<and> qe \<noteq> [] \<and> store_query qe top_k = Inr cs
        \<and> format_template prompt_template (compose_context cs) user_query = Inr p
        \<and> llm_generate p = Inl e \<longrightarrow>
      fst (QueryService_query embed_query store_query llm_generate prompt_template top_k user_query)
        = Inr (''[Error processing query: '' @ exn_str e @ '']''))
 \<and> (\<forall>qe cs p response. embed_query user_query = Inr qe \<and> qe \<noteq> [] \<and> store_query qe top_k = Inr cs
        \<and> format_template prompt_template (compose_context cs) user_query = Inr p
        \<and> llm_generate p = Inr response \<longrightarrow>
      fst (QueryService_query embed_query store_query llm_generate prompt_template top_k user_query)
        = Inr response)
 \<and> (\<forall>qe cs p response t. embed_query user_query = Inr qe \<and> qe \<noteq> [] \<and> store_query qe top_k = Inr cs
        \<and> format_template prompt_template (compose_context cs) user_query = Inr p
        \<and> client_generate (target_model_of default_model None) p
             (request_options_of default_options None) = Inr response
        \<and> response ''response'' = Some (JStr t) \<longrightarrow>
      fst (QueryService_query embed_query store_query
             (\<lambda>prompt. generate client_chat client_generate default_model default_options
                          prompt None None None)
             prompt_template top_k user_query)
        = Inr (strip t))"
proof (intro conjI allI impI)
  show "\<exists>text. fst (QueryService_query embed_query store_query llm_generate prompt_template top_k user_query)
        = Inr text"
    by (simp add: query_catch split: sum.splits)
qed (auto simp: query_catch query_steps_success generate_plain_success
        simp: query_steps_def)

lemma sample_generate_what:
  "sample_client_generate (target_model_of ''llama3'' None)
      (default_prompt
         ''Source: b.pdf, Page: 3\<newline>Delta\<newline>---\<newline>Source: a.txt, Page: N/A\<newline>Alpha''
         ''What?'')
      (request_options_of Map.empty None)
     = Inr [''response'' \<mapsto> JStr ''  An answer.\<newline>'']"
  by (simp add: sample_client_generate_def default_prompt_def)

theorem query_never_raises_witness:
  "QueryService_query sample_embed_query sample_store_query sample_llm DEFAULT_PROMPT_TEMPLATE 5 []
     = (Inr ''[Error: Failed to embed query]'', [EmbedQuery []])
   \<and> QueryService_query sample_embed_query sample_store_query sample_llm DEFAULT_PROMPT_TEMPLATE 5 ''boom''
     = (Inr ''[Error processing query: model crashed]'', [EmbedQuery ''boom''])
   \<and> fst (QueryService_query sample_embed_query sample_store_query sample_llm
             DEFAULT_PROMPT_TEMPLATE 5 ''What?'') = Inr ''An answer.''
   \<and> fst (QueryService_query sample_embed_query sample_store_query
             (\<lambda>prompt. generate sample_client_chat sample_client_generate ''llama3'' Map.empty
                          prompt None None None)
             DEFAULT_PROMPT_TEMPLATE 5 ''What?'') = Inr ''An answer.''"
proof -
  have ne: "([0, 1] :: int list) \<noteq> []" by simp
  have f1: "format_template DEFAULT_PROMPT_TEMPLATE
              (compose_context [to_document_chunk row_D, to_document_chunk row_A]) ''What?''
            = Inr (default_prompt
             ''Source: b.pdf, Page: 3\<newline>Delta\<newline>---\<newline>Source: a.txt, Page: N/A\<newline>Alpha''
             ''What?'')"
    by (simp only: format_default_prompt sample_context)
  have e0: "sample_embed_query [] = Inr []" by (simp add: sample_embed_query_def)
  have e1: "sample_embed_query ''boom'' = Inl (RuntimeError ''model crashed'')"
    by (simp add: sample_embed_query_def)
  have l: "sample_llm (default_prompt
             ''Source: b.pdf, Page: 3\<newline>Delta\<newline>---\<newline>Source: a.txt, Page: N/A\<newline>Alpha''
             ''What?'') = Inr ''An answer.''"
    by (simp add: sample_llm_def)
  have r: "[''response'' \<mapsto> JStr ''  An answer.\<newline>''] ''response'' = Some (JStr ''  An answer.\<newline>'')"
    by simp
  note A = query_never_raises [of sample_embed_query sample_store_query sample_llm
      DEFAULT_PROMPT_TEMPLATE 5 "[]" sample_client_generate "''llama3''" Map.empty
      sample_client_chat]
  note B = query_never_raises [of sample_embed_query sample_store_query sample_llm
      DEFAULT_PROMPT_TEMPLATE 5 "''boom''" sample_client_generate "''llama3''" Map.empty
      sample_client_chat]
  note C = query_never_raises [of sample_embed_query sample_store_query sample_llm
      DEFAULT_PROMPT_TEMPLATE 5 "''What?''" sample_client_generate "''llama3''" Map.empty
      sample_client_chat]
  from A e0 have a: "QueryService_query sample_embed_query sample_store_query sample_llm
      DEFAULT_PROMPT_TEMPLATE 5 [] = (Inr ''[Error: Failed to embed query]'', [EmbedQuery []])"
    by blast
  from B e1 have b: "QueryService_query sample_embed_query sample_store_query sample_llm
      DEFAULT_PROMPT_TEMPLATE 5 ''boom''
     = (Inr (''[Error processing query: '' @ exn_str (RuntimeError ''model crashed'') @ '']''),
        [EmbedQuery ''boom''])"
    by blast
  from C sample_embed_what ne sample_store_what f1 l
  have c: "fst (QueryService_query sample_embed_query sample_store_query sample_llm
             DEFAULT_PROMPT_TEMPLATE 5 ''What?'') = Inr ''An answer.''"
    by blast
  from C sample_embed_what ne sample_store_what f1 sample_generate_what r
  have d: "fst (QueryService_query sample_embed_query sample_store_query
             (\<lambda>prompt. generate sample_client_chat sample_client_generate ''llama3'' Map.empty
                          prompt None None None)
             DEFAULT_PROMPT_TEMPLATE 5 ''What?'') = Inr (strip ''  An answer.\<newline>'')"
    by blast
  from a b c d show ?thesis by (simp add: sample_strip)
qed

text \<open>
  C9 as stated fails: a language model collaborator that returns its answer with
  surrounding whitespace gets it back from the service with the whitespace, not
  stripped.
\<close>

theorem query_untrimmed_counterexample:
  "fst (QueryService_query sample_embed_query sample_store_query padded_llm
          DEFAULT_PROMPT_TEMPLATE 5 ''What?'') = Inr ''  An answer.\<newline>''
   \<and> strip ''  An answer.\<newline>'' \<noteq> ''  An answer.\<newline>''"
proof -
  have "query_steps sample_embed_query sample_store_query padded_llm
          DEFAULT_PROMPT_TEMPLATE 5 ''What?''
        = (padded_llm (default_prompt
             (compose_context [to_document_chunk row_D, to_document_chunk row_A]) ''What?''),
           [EmbedQuery ''What?'', StoreQuery [0, 1] 5,
            Generate (default_prompt
               (compose_context [to_document_chunk row_D, to_document_chunk row_A]) ''What?'')])"
    using sample_embed_what sample_store_what
    by (intro query_steps_success) (simp_all only: format_default_prompt, simp)
  then show ?thesis
    by (simp add: query_catch padded_llm_def sample_strip)
qed

end
